theory Spec2Isabelle
  imports Complex_Main "HOL-Library.Sublist"
begin

section \<open>Adaptive interview platform: level tracker, scoring and proctoring penalties\<close>

text \<open>
  The development embeds the decision logic of \<^verbatim>\<open>interview_manager.py\<close>,
  \<^verbatim>\<open>scoring_service.py\<close> and \<^verbatim>\<open>llm_runner.py\<close>. Python \<^verbatim>\<open>int\<close> is
  \<^typ>\<open>int\<close>, \<^verbatim>\<open>float\<close> is the set of IEEE doubles inside \<^typ>\<open>real\<close> with
  every operation rounded, \<^verbatim>\<open>str\<close> is \<^typ>\<open>string\<close> for ASCII text, mutation of
  \<^verbatim>\<open>self\<close> is state passing on a record, an exception is a value of a sum type.
  Logging, timestamps and the JSON files written to disk are not part of the model.
\<close>

subsection \<open>The interview manager's state\<close>

text \<open>One entry of \<^verbatim>\<open>session_data["candidate_answers"]\<close> (without its timestamp).\<close>

record qa_record =
  qa_question :: string
  qa_answer :: string
  qa_analysis :: string
  qa_next_question :: string
  qa_level :: string
  qa_technical_score :: int
  qa_level_questions_asked :: int
  qa_consecutive_correct :: int
  qa_consecutive_incorrect :: int

text \<open>The entries of \<^verbatim>\<open>self.session_data\<close> that the modelled methods read or write.\<close>

record session_data =
  sd_questions_asked :: "string list"
  sd_candidate_answers :: "qa_record list"
  sd_current_question_index :: int
  sd_answer_analysis :: "string list"
  sd_conversation_history :: "(string \<times> string) list"
  sd_current_level :: string
  sd_level_progression :: "string list"
  sd_technical_scores :: "int list"
  sd_consecutive_correct :: int
  sd_consecutive_incorrect :: int

text \<open>The attributes of an \<^verbatim>\<open>InterviewManager\<close> object.\<close>

record interview_manager =
  job_role :: string
  candidate_name :: string
  current_level :: string
  level_questions_asked :: int
  consecutive_correct :: int
  consecutive_incorrect :: int
  level_progression :: "string list"
  conversation_context :: "string list"
  last_answer :: string
  last_question :: string
  session :: session_data

text \<open>\<^verbatim>\<open>InterviewManager.__init__\<close>.\<close>

definition new_session_data :: session_data where
  "new_session_data =
     \<lparr> sd_questions_asked = [],
       sd_candidate_answers = [],
       sd_current_question_index = 0,
       sd_answer_analysis = [],
       sd_conversation_history = [],
       sd_current_level = ''easy'',
       sd_level_progression = [''easy''],
       sd_technical_scores = [],
       sd_consecutive_correct = 0,
       sd_consecutive_incorrect = 0 \<rparr>"

definition new_manager :: "string \<Rightarrow> string \<Rightarrow> interview_manager" where
  "new_manager role cand =
     \<lparr> job_role = role,
       candidate_name = cand,
       current_level = ''easy'',
       level_questions_asked = 0,
       consecutive_correct = 0,
       consecutive_incorrect = 0,
       level_progression = [''easy''],
       conversation_context = [],
       last_answer = [],
       last_question = [],
       session = new_session_data \<rparr>"

subsection \<open>Level tracking\<close>

text \<open>\<^verbatim>\<open>should_promote_level\<close> and \<^verbatim>\<open>should_demote_level\<close>.\<close>

definition should_promote_level :: "interview_manager \<Rightarrow> bool" where
  "should_promote_level m =
     (if current_level m = ''hard'' then False else consecutive_correct m \<ge> 2)"

definition should_demote_level :: "interview_manager \<Rightarrow> bool" where
  "should_demote_level m =
     (if current_level m = ''easy'' then False else consecutive_incorrect m \<ge> 2)"

text \<open>
  \<^verbatim>\<open>_change_level(new_level, reason)\<close>: the level is replaced and appended to the
  progression, \<^verbatim>\<open>level_questions_asked\<close> restarts; the streak counters are not touched.
  The \<^verbatim>\<open>reason\<close> only goes to the log.
\<close>

definition change_level :: "string \<Rightarrow> string \<Rightarrow> interview_manager \<Rightarrow> interview_manager" where
  "change_level new_level reason m =
     (let progression = level_progression m @ [new_level]
      in m \<lparr> current_level := new_level,
             level_progression := progression,
             level_questions_asked := 0,
             session := (session m) \<lparr> sd_current_level := new_level,
                                      sd_level_progression := progression \<rparr> \<rparr>)"

text \<open>The first block of \<^verbatim>\<open>determine_next_level\<close>: the streak counters.\<close>

definition update_streaks :: "int \<Rightarrow> interview_manager \<Rightarrow> interview_manager" where
  "update_streaks technical_score m =
     (let is_correct = (technical_score \<ge> 60);
          m1 = (if is_correct
                then m \<lparr> consecutive_correct := consecutive_correct m + 1,
                         consecutive_incorrect := 0 \<rparr>
                else m \<lparr> consecutive_incorrect := consecutive_incorrect m + 1,
                         consecutive_correct := 0 \<rparr>)
      in m1 \<lparr> level_questions_asked := level_questions_asked m1 + 1 \<rparr>)"

text \<open>
  \<^verbatim>\<open>determine_next_level(technical_score)\<close>: returns the level and the updated object.
\<close>

definition determine_next_level :: "int \<Rightarrow> interview_manager \<Rightarrow> string \<times> interview_manager" where
  "determine_next_level technical_score m =
     (let m1 = update_streaks technical_score m;
          m2 = (if should_promote_level m1
                then change_level (if current_level m1 = ''easy'' then ''medium'' else ''hard'')
                       ''promotion'' m1
                else if should_demote_level m1
                then change_level (if current_level m1 = ''medium'' then ''easy'' else ''medium'')
                       ''demotion'' m1
                else m1);
          m3 = m2 \<lparr> session := (session m2)
                         \<lparr> sd_current_level := current_level m2,
                           sd_consecutive_correct := consecutive_correct m2,
                           sd_consecutive_incorrect := consecutive_incorrect m2 \<rparr> \<rparr>
      in (current_level m3, m3))"

text \<open>The tracker after a sequence of technical scores, from a fresh manager.\<close>

definition tracker_after :: "string \<Rightarrow> string \<Rightarrow> int list \<Rightarrow> interview_manager" where
  "tracker_after role cand scores =
     foldl (\<lambda>m s. snd (determine_next_level s m)) (new_manager role cand) scores"

text \<open>
  The ordered sequence of levels, as the transition rule is worded: one step up, one step
  down, and the position of a level in the order.
\<close>

definition level_up :: "string \<Rightarrow> string" where
  "level_up l = (if l = ''easy'' then ''medium'' else if l = ''medium'' then ''hard'' else l)"

definition level_down :: "string \<Rightarrow> string" where
  "level_down l = (if l = ''hard'' then ''medium'' else if l = ''medium'' then ''easy'' else l)"

definition level_rank :: "string \<Rightarrow> int" where
  "level_rank l = (if l = ''easy'' then 0 else if l = ''medium'' then 1 else 2)"

definition known_level :: "string \<Rightarrow> bool" where
  "known_level l = (l = ''easy'' \<or> l = ''medium'' \<or> l = ''hard'')"

subsection \<open>Text operations\<close>

text \<open>
  The methods of Python's \<^verbatim>\<open>str\<close> that the code calls: the white space of
  \<^verbatim>\<open>strip()\<close> and \<^verbatim>\<open>split()\<close>, \<^verbatim>\<open>lower()\<close>, \<^verbatim>\<open>split(sep)\<close> and
  \<^verbatim>\<open>replace(old, new)\<close> for a non-empty separator, and \<^verbatim>\<open>sub in s\<close>, which is
  \<^const>\<open>sublist\<close>. A \<^typ>\<open>string\<close> holds ASCII text (\<open>ascii_text\<close>), and the character
  classes below are Python's on ASCII text only: outside ASCII Python also counts the
  Unicode letters and digits as word characters, the Unicode decimal digits as digits and
  the Unicode spaces as white space, which these definitions do not.
\<close>

definition ascii_text :: "string \<Rightarrow> bool" where
  "ascii_text s = list_all (\<lambda>c. (of_char c :: nat) < 128) s"

definition is_space :: "char \<Rightarrow> bool" where
  "is_space c = (c \<in> set [CHR '' '', CHR 0x09, CHR 0x0A, CHR 0x0B, CHR 0x0C, CHR 0x0D,
                           CHR 0x1C, CHR 0x1D, CHR 0x1E, CHR 0x1F])"

definition strip :: "string \<Rightarrow> string" where
  "strip s = rev (dropWhile is_space (rev (dropWhile is_space s)))"

fun split_ws_go :: "string \<Rightarrow> string \<Rightarrow> string list" where
  "split_ws_go acc [] = (if acc = [] then [] else [rev acc])"
| "split_ws_go acc (c # cs) =
     (if is_space c
      then (if acc = [] then split_ws_go [] cs else rev acc # split_ws_go [] cs)
      else split_ws_go (c # acc) cs)"

definition split_ws :: "string \<Rightarrow> string list" where
  "split_ws s = split_ws_go [] s"

definition lower_char :: "char \<Rightarrow> char" where
  "lower_char c =
     (case map_of (zip ''ABCDEFGHIJKLMNOPQRSTUVWXYZ'' ''abcdefghijklmnopqrstuvwxyz'') c of
        Some l \<Rightarrow> l
      | None \<Rightarrow> c)"

definition lower :: "string \<Rightarrow> string" where
  "lower s = map lower_char s"

text \<open>
  \<^verbatim>\<open>s.split(sep)\<close> for the separator \<open>s0 # srest\<close>: the pieces between the
  non-overlapping occurrences of the separator, found from the left.
\<close>

fun split_go :: "char \<Rightarrow> string \<Rightarrow> string \<Rightarrow> string \<Rightarrow> string list" where
  "split_go s0 srest acc [] = [rev acc]"
| "split_go s0 srest acc (c # cs) =
     (if c = s0 \<and> prefix srest cs
      then rev acc # split_go s0 srest [] (drop (length srest) cs)
      else split_go s0 srest (c # acc) cs)"

definition split_on :: "string \<Rightarrow> string \<Rightarrow> string list" where
  "split_on sep s = (case sep of [] \<Rightarrow> [s] | s0 # srest \<Rightarrow> split_go s0 srest [] s)"

definition replace :: "string \<Rightarrow> string \<Rightarrow> string \<Rightarrow> string" where
  "replace old new s =
     (case split_on old s of [] \<Rightarrow> [] | p # ps \<Rightarrow> p @ concat (map (\<lambda>q. new @ q) ps))"

subsection \<open>The pattern of the score extraction\<close>

text \<open>
  \<^verbatim>\<open>re.findall(r"\b\d{1,3}\b", response)\<close> on ASCII text. A digit is \<open>0\<close> to \<open>9\<close>, a
  word character is a letter, a digit or the underscore. \<^verbatim>\<open>\b\<close> holds between two positions of which
  exactly one holds a word character (the ends of the text count as no word character).
  At a position the pattern asks for a boundary, then takes up to three digits, the longest
  run first, and asks for a boundary again; the first count that succeeds is the match.
  After a match the search continues behind it, otherwise at the next character.
\<close>

definition is_digit :: "char \<Rightarrow> bool" where
  "is_digit c = (c \<in> set ''0123456789'')"

definition is_word_char :: "char \<Rightarrow> bool" where
  "is_word_char c =
     (c \<in> set ''abcdefghijklmnopqrstuvwxyzABCDEFGHIJKLMNOPQRSTUVWXYZ0123456789_'')"

definition word_boundary :: "char option \<Rightarrow> char option \<Rightarrow> bool" where
  "word_boundary prev nxt =
     ((case prev of None \<Rightarrow> False | Some c \<Rightarrow> is_word_char c) \<noteq>
      (case nxt of None \<Rightarrow> False | Some c \<Rightarrow> is_word_char c))"

definition char_at :: "string \<Rightarrow> nat \<Rightarrow> char option" where
  "char_at s i = (if i < length s then Some (s ! i) else None)"

definition match_number_at :: "char option \<Rightarrow> string \<Rightarrow> nat option" where
  "match_number_at prev s =
     (if word_boundary prev (char_at s 0)
      then find (\<lambda>k. k \<le> length s \<and> list_all is_digit (take k s) \<and>
                      word_boundary (char_at s (k - 1)) (char_at s k)) [3, 2, 1]
      else None)"

function findall_number :: "char option \<Rightarrow> string \<Rightarrow> string list" where
  "findall_number prev [] = []"
| "findall_number prev (c # cs) =
     (case match_number_at prev (c # cs) of
        None \<Rightarrow> findall_number (Some c) cs
      | Some k \<Rightarrow>
          take k (c # cs) # findall_number (char_at (c # cs) (k - 1)) (drop k (c # cs)))"
  by pat_completeness auto
termination
proof (relation "measure (\<lambda>(prev, s). length s)")
  fix prev :: "char option" and c :: char and cs :: string and k :: nat
  assume "match_number_at prev (c # cs) = Some k"
  then have "k \<in> set [3, 2, 1]"
    by (auto simp: match_number_at_def find_Some_iff nth_Cons' split: if_splits)
  then show "((char_at (c # cs) (k - 1), drop k (c # cs)), prev, c # cs)
      \<in> measure (\<lambda>(prev, s). length s)"
    by auto
qed auto

definition digit_value :: "char \<Rightarrow> int" where
  "digit_value c = of_char c - 48"

definition int_of_digits :: "string \<Rightarrow> int" where
  "int_of_digits ds = foldl (\<lambda>a c. 10 * a + digit_value c) 0 ds"

text \<open>Whether the character before a position is a word character.\<close>

definition word_before :: "char option \<Rightarrow> bool" where
  "word_before prev = (case prev of None \<Rightarrow> False | Some c \<Rightarrow> is_word_char c)"

text \<open>
  The tokens of a text, as the parsing policy is worded: a token is a maximal run of word
  characters, and an integer token of one to three digits is a token made of at most three
  characters, all of them digits.
\<close>

function word_runs :: "string \<Rightarrow> string list" where
  "word_runs [] = []"
| "word_runs (c # cs) =
     (if is_word_char c
      then takeWhile is_word_char (c # cs) # word_runs (dropWhile is_word_char cs)
      else word_runs cs)"
  by pat_completeness auto
termination
  by (relation "measure length") (auto simp: length_dropWhile_le less_Suc_eq_le)

definition number_tokens :: "string \<Rightarrow> string list" where
  "number_tokens s = filter (\<lambda>w. length w \<le> 3 \<and> list_all is_digit w) (word_runs s)"

subsection \<open>Answer scoring\<close>

text \<open>An exception raised inside a \<^verbatim>\<open>try\<close> block, with its message.\<close>

datatype py_exception = Exception string

text \<open>
  \<^verbatim>\<open>evaluate_answer_quality(answer, question)\<close>. The prompt built from the job role, the
  question and the answer only reaches the collaborator; \<open>reply\<close> is the outcome of
  \<^verbatim>\<open>self.llm.ask(evaluation_prompt)\<close>: the text returned, or the exception raised.
\<close>

definition evaluate_answer_quality :: "py_exception + string \<Rightarrow> string \<Rightarrow> int" where
  "evaluate_answer_quality reply answer =
     (case reply of
        Inr response \<Rightarrow>
          (let numbers = findall_number None (strip response)
           in case numbers of
                n # _ \<Rightarrow> max 0 (min 100 (int_of_digits n))
              | [] \<Rightarrow>
                  (if length (split_ws answer) > 20 \<and>
                      list_ex (\<lambda>keyword. sublist keyword (lower answer))
                        [''because'', ''example'', ''method'', ''technique'', ''approach'']
                   then 65 else 45))
      | Inl e \<Rightarrow> (if length answer > 50 then 55 else 40))"

subsection \<open>The text generation call and its retries\<close>

text \<open>
  One call of \<^verbatim>\<open>self.model.generate_content(prompt)\<close> followed by the read of
  \<^verbatim>\<open>response.text\<close>: an exception (from the call or from the read), a response without
  a \<^verbatim>\<open>text\<close> attribute, or a response with its text.
\<close>

datatype gen_outcome = Raises py_exception | NoText | Text string

definition continue_text :: string where
  "continue_text = ''Please continue with your answer.''"

text \<open>
  \<^verbatim>\<open>generate_text(prompt, max_retries)\<close>: the loop over \<^verbatim>\<open>range(max_retries)\<close>. The
  external model is a function from the number of the attempt to its outcome. The result
  is the value returned (\<open>None\<close> is Python's \<^verbatim>\<open>None\<close>, when the loop body never runs),
  the number of calls made and the seconds slept.
\<close>

fun generate_text_loop :: "(nat \<Rightarrow> gen_outcome) \<Rightarrow> int \<Rightarrow> nat list \<Rightarrow> string option \<times> nat \<times> nat" where
  "generate_text_loop model max_retries [] = (None, 0, 0)"
| "generate_text_loop model max_retries (attempt # rest) =
     (case model attempt of
        Text t \<Rightarrow> (if t \<noteq> [] then (Some (strip t), 1, 0) else (Some continue_text, 1, 0))
      | NoText \<Rightarrow> (Some continue_text, 1, 0)
      | Raises e \<Rightarrow>
          (if int attempt < max_retries - 1
           then (case generate_text_loop model max_retries rest of
                   (r, calls, slept) \<Rightarrow> (r, calls + 1, slept + 2))
           else (Some continue_text, 1, 0)))"

definition generate_text :: "(nat \<Rightarrow> gen_outcome) \<Rightarrow> int \<Rightarrow> string option \<times> nat \<times> nat" where
  "generate_text model max_retries = generate_text_loop model max_retries [0..<nat max_retries]"

text \<open>\<^verbatim>\<open>ask(prompt)\<close> calls \<^verbatim>\<open>generate_text\<close> with the default of 3 retries.\<close>

definition ask :: "(nat \<Rightarrow> gen_outcome) \<Rightarrow> string option" where
  "ask model = fst (generate_text model 3)"

text \<open>
  What a caller's \<^verbatim>\<open>try\<close> block sees of \<^verbatim>\<open>self.llm.ask(prompt)\<close>: a text, or an
  exception. Each caller first applies a string operation to the value, which raises inside
  the \<^verbatim>\<open>try\<close> block if the value is \<^verbatim>\<open>None\<close>.
\<close>

definition llm_reply :: "(nat \<Rightarrow> gen_outcome) \<Rightarrow> py_exception + string" where
  "llm_reply model =
     (case ask model of
        Some s \<Rightarrow> Inr s
      | None \<Rightarrow> Inl (Exception ''NoneType''))"

subsection \<open>Question generation\<close>

text \<open>
  The pool of \<^verbatim>\<open>_generate_fallback_question\<close> for a level; an unknown level gets the easy
  pool, as \<^verbatim>\<open>fallback_questions.get(self.current_level, fallback_questions["easy"])\<close>.
\<close>

definition fallback_questions :: "string \<Rightarrow> string \<Rightarrow> string list" where
  "fallback_questions role level =
     (let easy =
            [''Could you tell me more about your experience with '' @ lower role @ ''?'',
             ''What interests you most about being a '' @ role @ ''?'',
             ''Can you describe a basic project related to '' @ lower role
               @ '' that you've worked on?''];
          medium =
            [''How would you approach a typical challenge in '' @ lower role @ ''?'',
             ''What are the key skills needed for a '' @ role @ '' role?'',
             ''Can you explain a technical concept relevant to '' @ lower role @ ''?''];
          hard =
            [''How would you handle a complex situation in '' @ lower role @ ''?'',
             ''What advanced techniques would you use in '' @ lower role @ ''?'',
             ''Can you discuss a strategic approach to '' @ lower role @ '' problems?'']
      in if level = ''easy'' then easy
         else if level = ''medium'' then medium
         else if level = ''hard'' then hard
         else easy)"

text \<open>
  \<^verbatim>\<open>random.choice(questions)\<close>: the random source is the number \<open>pick\<close>, reduced to an
  index of the pool.
\<close>

definition generate_fallback_question :: "nat \<Rightarrow> interview_manager \<Rightarrow> string" where
  "generate_fallback_question pick m =
     (let questions = fallback_questions (job_role m) (current_level m)
      in questions ! (pick mod length questions))"

definition newline :: string where
  "newline = [CHR 0x0A]"

text \<open>
  The parsing inside \<^verbatim>\<open>analyze_answer_and_generate_question\<close>, from the reply to the
  analysis and the next question; \<open>fallback\<close> is the fallback question the method would
  generate. \<open>None\<close> stands for an \<^verbatim>\<open>IndexError\<close> at \<^verbatim>\<open>parts[1]\<close>.
\<close>

definition parse_analysis_response :: "string \<Rightarrow> string \<Rightarrow> (string \<times> string) option" where
  "parse_analysis_response response fallback =
     (if sublist ''ANALYSIS:'' response \<and> sublist ''QUESTION:'' response
      then (case split_on ''QUESTION:'' response of
              p0 # p1 # _ \<Rightarrow> Some (strip (replace ''ANALYSIS:'' [] p0), strip p1)
            | _ \<Rightarrow> None)
      else (let lines = filter (\<lambda>l. l \<noteq> []) (map strip (split_on newline response))
            in case lines of
                 l0 # l1 # _ \<Rightarrow> Some (l0, l1)
               | _ \<Rightarrow> Some (''Answer received. Continuing interview.'', fallback)))"

text \<open>
  \<^verbatim>\<open>analyze_answer_and_generate_question(question, answer)\<close>; \<open>reply\<close> is the outcome of
  \<^verbatim>\<open>self.llm.ask(prompt)\<close>. An exception anywhere in the \<^verbatim>\<open>try\<close> block ends in the
  handler, which returns a fallback question.
\<close>

definition analyze_answer_and_generate_question ::
  "py_exception + string \<Rightarrow> nat \<Rightarrow> string \<Rightarrow> string \<Rightarrow> interview_manager
     \<Rightarrow> (string \<times> string) \<times> interview_manager" where
  "analyze_answer_and_generate_question reply pick question answer m =
     (let m1 = m \<lparr> conversation_context := conversation_context m @ [''Candidate: '' @ answer],
                    last_answer := answer,
                    last_question := question \<rparr>;
          handler = ((''Analysis not available.'', generate_fallback_question pick m1), m1)
      in case reply of
           Inl e \<Rightarrow> handler
         | Inr response \<Rightarrow>
             (case parse_analysis_response response (generate_fallback_question pick m1) of
                None \<Rightarrow> handler
              | Some (analysis, next_question) \<Rightarrow>
                  ((analysis, next_question),
                   m1 \<lparr> conversation_context :=
                          conversation_context m1 @ [''Interviewer: '' @ next_question] \<rparr>)))"

text \<open>
  The cleaning of the reply inside \<^verbatim>\<open>get_next_question_without_answer\<close>;
  \<^verbatim>\<open>split("QUESTION:")[-1]\<close> is the last piece.
\<close>

definition clean_question :: "string \<Rightarrow> string" where
  "clean_question response =
     (let q0 = strip response
      in if sublist ''QUESTION:'' q0 then strip (last (split_on ''QUESTION:'' q0)) else q0)"

text \<open>
  \<^verbatim>\<open>get_next_question_without_answer(current_question)\<close>; \<open>reply\<close> is the outcome of
  \<^verbatim>\<open>self.llm.ask(prompt)\<close>.
\<close>

definition get_next_question_without_answer ::
  "py_exception + string \<Rightarrow> nat \<Rightarrow> string \<Rightarrow> interview_manager \<Rightarrow> string \<times> interview_manager" where
  "get_next_question_without_answer reply pick current_question m =
     (case reply of
        Inl e \<Rightarrow> (generate_fallback_question pick m, m)
      | Inr response \<Rightarrow>
          (let q1 = clean_question response;
               next_question = (if length q1 < 10 \<or> length q1 > 500
                                then generate_fallback_question pick m else q1);
               sd = session m
           in (next_question,
               m \<lparr> session := sd
                      \<lparr> sd_questions_asked := sd_questions_asked sd @ [next_question],
                        sd_current_question_index := sd_current_question_index sd + 1,
                        sd_conversation_history :=
                          sd_conversation_history sd @ [(''AI Interviewer'', next_question)] \<rparr>,
                    conversation_context :=
                      conversation_context m
                        @ [''Candidate: [Skipped or unclear answer]'',
                           ''Interviewer: '' @ next_question] \<rparr>)))"

text \<open>\<^verbatim>\<open>get_opening_question()\<close>, with the opening text of the job's prompt table.\<close>

definition get_opening_question :: "string \<Rightarrow> interview_manager \<Rightarrow> string \<times> interview_manager" where
  "get_opening_question opening m =
     (let sd = session m
      in (opening,
          m \<lparr> session := sd
                 \<lparr> sd_questions_asked := sd_questions_asked sd @ [opening],
                   sd_current_question_index := 1,
                   sd_conversation_history :=
                     sd_conversation_history sd @ [(''AI Interviewer'', opening)] \<rparr>,
               last_question := opening,
               conversation_context := conversation_context m @ [''Interviewer: '' @ opening] \<rparr>))"

text \<open>
  \<^verbatim>\<open>process_answer(question, answer)\<close>: score the answer, record the score, update the
  level, generate the next question, record the turn. \<open>score_reply\<close> and
  \<open>question_reply\<close> are the outcomes of the two collaborator calls of the turn.
\<close>

definition process_answer ::
  "py_exception + string \<Rightarrow> py_exception + string \<Rightarrow> nat \<Rightarrow> string \<Rightarrow> string
     \<Rightarrow> interview_manager \<Rightarrow> (qa_record \<times> string) \<times> interview_manager" where
  "process_answer score_reply question_reply pick question answer m =
     (let technical_score = evaluate_answer_quality score_reply answer;
          m1 = m \<lparr> session := (session m)
                     \<lparr> sd_technical_scores := sd_technical_scores (session m) @ [technical_score] \<rparr> \<rparr>;
          (next_level, m2) = determine_next_level technical_score m1;
          ((analysis, next_question), m3) =
             analyze_answer_and_generate_question question_reply pick question answer m2;
          rec = \<lparr> qa_question = question,
                  qa_answer = answer,
                  qa_analysis = analysis,
                  qa_next_question = next_question,
                  qa_level = next_level,
                  qa_technical_score = technical_score,
                  qa_level_questions_asked = level_questions_asked m3,
                  qa_consecutive_correct = consecutive_correct m3,
                  qa_consecutive_incorrect = consecutive_incorrect m3 \<rparr>;
          sd = session m3
      in ((rec, next_question),
          m3 \<lparr> session := sd
                  \<lparr> sd_candidate_answers := sd_candidate_answers sd @ [rec],
                    sd_answer_analysis := sd_answer_analysis sd @ [analysis],
                    sd_questions_asked := sd_questions_asked sd @ [next_question],
                    sd_current_question_index := sd_current_question_index sd + 1,
                    sd_conversation_history :=
                      sd_conversation_history sd
                        @ [(''Candidate'', answer), (''AI Interviewer'', next_question)] \<rparr> \<rparr>))"

text \<open>
  The turns of a session, as the caller drives them: an answered turn goes through
  \<^verbatim>\<open>process_answer\<close>, a skipped one through \<^verbatim>\<open>get_next_question_without_answer\<close>.
\<close>

datatype turn =
    Answered "py_exception + string" "py_exception + string" nat string string
  | Skipped "py_exception + string" nat string

fun take_turn :: "interview_manager \<Rightarrow> turn \<Rightarrow> interview_manager" where
  "take_turn m (Answered score_reply question_reply pick question answer) =
     snd (process_answer score_reply question_reply pick question answer m)"
| "take_turn m (Skipped reply pick current_question) =
     snd (get_next_question_without_answer reply pick current_question m)"

definition session_after :: "string \<Rightarrow> string \<Rightarrow> string \<Rightarrow> turn list \<Rightarrow> interview_manager" where
  "session_after role cand opening turns =
     foldl take_turn (snd (get_opening_question opening (new_manager role cand))) turns"

text \<open>The technical scores that a list of turns records: one per answered turn.\<close>

fun recorded_scores :: "turn list \<Rightarrow> int list" where
  "recorded_scores [] = []"
| "recorded_scores (Answered score_reply question_reply pick question answer # turns) =
     evaluate_answer_quality score_reply answer # recorded_scores turns"
| "recorded_scores (Skipped reply pick current_question # turns) = recorded_scores turns"

subsection \<open>Proctoring penalties\<close>

text \<open>
  The proctoring statistics are a dictionary from names to counts; \<^verbatim>\<open>d.get(key, 0)\<close> is
  \<open>stat_get\<close>. A line of \<^verbatim>\<open>penalties_applied\<close> is kept as its label, its count and its
  points, from which the source formats the text.
\<close>

type_synonym stats = "(string \<times> int) list"

type_synonym penalty_item = "string \<times> int \<times> int"

definition stat_get :: "stats \<Rightarrow> string \<Rightarrow> int" where
  "stat_get d key = (case map_of d key of None \<Rightarrow> 0 | Some v \<Rightarrow> v)"

text \<open>
  \<^verbatim>\<open>InterviewManager._calculate_proctoring_penalty(proctoring_stats)\<close>: the penalty
  returned, and the lines the method collects.
\<close>

definition manager_calculate_proctoring_penalty :: "stats \<Rightarrow> int \<times> penalty_item list" where
  "manager_calculate_proctoring_penalty proctoring_stats =
     (let tab_switches = stat_get proctoring_stats ''tab_switch_count'';
          tab_penalty = min (tab_switches * 2) 20;
          penalty1 = (if tab_switches > 0 then tab_penalty else 0);
          applied1 = (if tab_switches > 0 then [(''Tab switches'', tab_switches, tab_penalty)] else []);
          multiple_faces = stat_get proctoring_stats ''multiple_faces'';
          multiple_penalty = 15 * multiple_faces;
          face1 = (if multiple_faces > 0 then multiple_penalty else 0);
          applied2 = (if multiple_faces > 0
                      then applied1 @ [(''Multiple people detected'', multiple_faces, multiple_penalty)]
                      else applied1);
          face_coverings = stat_get proctoring_stats ''face_coverings'';
          face_cover_penalty = min (face_coverings * 5) 25;
          face2 = (if face_coverings > 0 then face1 + face_cover_penalty else face1);
          applied3 = (if face_coverings > 0
                      then applied2 @ [(''Face covered'', face_coverings, face_cover_penalty)]
                      else applied2);
          eye_coverings = stat_get proctoring_stats ''eye_coverings'';
          eye_cover_penalty = min (eye_coverings * 5) 25;
          face3 = (if eye_coverings > 0 then face2 + eye_cover_penalty else face2);
          applied4 = (if eye_coverings > 0
                      then applied3 @ [(''Eyes covered'', eye_coverings, eye_cover_penalty)]
                      else applied3);
          no_face_count = stat_get proctoring_stats ''no_face_count'';
          no_face_penalty = min (no_face_count * 2) 15;
          face_penalty = (if no_face_count > 0 then face3 + no_face_penalty else face3);
          applied5 = (if no_face_count > 0
                      then applied4 @ [(''No face detected'', no_face_count, no_face_penalty)]
                      else applied4);
          penalty2 = penalty1 + min face_penalty 50;
          total_alerts = stat_get proctoring_stats ''total_alerts'';
          alert_penalty = min (total_alerts * 1) 10;
          penalty = (if total_alerts > 0 then penalty2 + alert_penalty else penalty2);
          penalties_applied = (if total_alerts > 0
                               then applied5 @ [(''Total alerts'', total_alerts, alert_penalty)]
                               else applied5);
          final_penalty = min penalty 70
      in (final_penalty, penalties_applied))"

text \<open>
  \<^verbatim>\<open>ScoringService.calculate_proctoring_penalty(proctoring_data)\<close>: the same steps; the
  method stores the lines and \<^verbatim>\<open>min(penalty, 70)\<close> in the dictionary and returns
  \<^verbatim>\<open>min(penalty, 70)\<close>.
\<close>

definition service_calculate_proctoring_penalty :: "stats \<Rightarrow> int \<times> penalty_item list" where
  "service_calculate_proctoring_penalty proctoring_data =
     (let tab_switches = stat_get proctoring_data ''tab_switch_count'';
          tab_penalty = min (tab_switches * 2) 20;
          penalty1 = (if tab_switches > 0 then tab_penalty else 0);
          applied1 = (if tab_switches > 0 then [(''Tab switches'', tab_switches, tab_penalty)] else []);
          multiple_faces = stat_get proctoring_data ''multiple_faces'';
          multiple_penalty = 15 * multiple_faces;
          face1 = (if multiple_faces > 0 then multiple_penalty else 0);
          applied2 = (if multiple_faces > 0
                      then applied1 @ [(''Multiple people detected'', multiple_faces, multiple_penalty)]
                      else applied1);
          face_coverings = stat_get proctoring_data ''face_coverings'';
          face_cover_penalty = min (face_coverings * 5) 25;
          face2 = (if face_coverings > 0 then face1 + face_cover_penalty else face1);
          applied3 = (if face_coverings > 0
                      then applied2 @ [(''Face covered'', face_coverings, face_cover_penalty)]
                      else applied2);
          eye_coverings = stat_get proctoring_data ''eye_coverings'';
          eye_cover_penalty = min (eye_coverings * 5) 25;
          face3 = (if eye_coverings > 0 then face2 + eye_cover_penalty else face2);
          applied4 = (if eye_coverings > 0
                      then applied3 @ [(''Eyes covered'', eye_coverings, eye_cover_penalty)]
                      else applied3);
          no_face_count = stat_get proctoring_data ''no_face_count'';
          no_face_penalty = min (no_face_count * 2) 15;
          face_penalty = (if no_face_count > 0 then face3 + no_face_penalty else face3);
          applied5 = (if no_face_count > 0
                      then applied4 @ [(''No face detected'', no_face_count, no_face_penalty)]
                      else applied4);
          penalty2 = penalty1 + min face_penalty 50;
          total_alerts = stat_get proctoring_data ''total_alerts'';
          alert_penalty = min (total_alerts * 1) 10;
          penalty = (if total_alerts > 0 then penalty2 + alert_penalty else penalty2);
          penalties_applied = (if total_alerts > 0
                               then applied5 @ [(''Total alerts'', total_alerts, alert_penalty)]
                               else applied5)
      in (min penalty 70, penalties_applied))"

text \<open>The penalty as the specification words it: each cap, the face subtotal, the grand cap.\<close>

definition spec_penalty :: "int \<Rightarrow> int \<Rightarrow> int \<Rightarrow> int \<Rightarrow> int \<Rightarrow> int \<Rightarrow> int" where
  "spec_penalty tab_switches multiple_faces face_coverings eye_coverings no_face_count total_alerts =
     min (min (2 * tab_switches) 20
          + min (15 * multiple_faces + min (5 * face_coverings) 25 + min (5 * eye_coverings) 25
                 + min (2 * no_face_count) 15) 50
          + min (1 * total_alerts) 10) 70"

subsection \<open>Floating-point arithmetic\<close>

text \<open>
  A Python \<^verbatim>\<open>float\<close> is an IEEE 754 double: a real number \<open>k * 2 ^ e\<close> with a
  significand \<open>k\<close> of at most 53 bits. Every operation returns the exact result rounded to
  the nearest double, a tie going to the even significand. \<open>round_half_even\<close> rounds a
  real to the nearest integer in that way; \<open>binade\<close> finds the exponent \<open>e\<close> with
  \<open>2 ^ e \<le> x < 2 ^ (e + 1)\<close> of a positive \<open>x\<close>, stopping at \<open>- 1022\<close>, below which the
  doubles are evenly spaced; \<open>fl\<close> rounds a real to the nearest double. Overflow to
  infinity (magnitudes of \<open>2 ^ 1024\<close> and more) is not modelled: the quantities computed
  here from scores between 0 and 100 stay below 1001.
\<close>

definition round_half_even :: "real \<Rightarrow> int" where
  "round_half_even x =
     (let f = \<lfloor>x\<rfloor>; d = x - of_int f
      in if d < 1 / 2 then f else if d > 1 / 2 then f + 1 else if even f then f else f + 1)"

function binade_up :: "real \<Rightarrow> int \<Rightarrow> int" where
  "binade_up x e = (if x < 2 then e else binade_up (x / 2) (e + 1))"
  by pat_completeness auto
termination
proof (relation "measure (\<lambda>(x, e). nat \<lceil>x\<rceil>)")
  fix x :: real and e :: int
  assume big: "\<not> x < 2"
  then have "x / 2 \<le> x - 1" by simp
  then have "\<lceil>x / 2\<rceil> \<le> \<lceil>x - 1\<rceil>" by (rule ceiling_mono)
  moreover have "0 < \<lceil>x\<rceil>" using big by (simp add: less_ceiling_iff)
  ultimately show "((x / 2, e + 1), x, e) \<in> measure (\<lambda>(x, e). nat \<lceil>x\<rceil>)" by simp
qed simp

function binade_down :: "real \<Rightarrow> int \<Rightarrow> int" where
  "binade_down x e = (if 1 \<le> x \<or> e \<le> - 1022 then e else binade_down (2 * x) (e - 1))"
  by pat_completeness auto
termination
  by (relation "measure (\<lambda>(x, e). nat (e + 1022))") auto

definition binade :: "real \<Rightarrow> int" where
  "binade x = (if 1 \<le> x then binade_up x 0 else binade_down x 0)"

definition fl :: "real \<Rightarrow> real" where
  "fl x =
     (if x = 0 then 0
      else (let u = 2 powi (binade \<bar>x\<bar> - 52);
                r = real_of_int (round_half_even (\<bar>x\<bar> / u)) * u
            in if 0 < x then r else - r))"

text \<open>
  The operations of Python on floats: \<^verbatim>\<open>*\<close>, \<^verbatim>\<open>+\<close>, \<^verbatim>\<open>-\<close>, the conversion of an
  \<^verbatim>\<open>int\<close> operand, and the true division \<^verbatim>\<open>/\<close> of two \<^verbatim>\<open>int\<close>s, which is the
  exact quotient rounded once. A literal such as \<^verbatim>\<open>0.6\<close> is \<open>fl 0.6\<close>.
\<close>

definition fmul :: "real \<Rightarrow> real \<Rightarrow> real" where
  "fmul a b = fl (a * b)"

definition fadd :: "real \<Rightarrow> real \<Rightarrow> real" where
  "fadd a b = fl (a + b)"

definition fsub :: "real \<Rightarrow> real \<Rightarrow> real" where
  "fsub a b = fl (a - b)"

definition float_of_int :: "int \<Rightarrow> real" where
  "float_of_int n = fl (real_of_int n)"

definition int_truediv :: "int \<Rightarrow> int \<Rightarrow> real" where
  "int_truediv a b = fl (real_of_int a / real_of_int b)"

subsection \<open>Final evaluation of the interview manager\<close>

text \<open>
  \<^verbatim>\<open>round(x, 1)\<close>: the tenth nearest to the exact value of \<open>x\<close>, a tie going to the
  even tenth, and then the double nearest to that tenth.
\<close>

definition py_round1 :: "real \<Rightarrow> real" where
  "py_round1 x = fl (real_of_int (round_half_even (x * 10)) / 10)"

text \<open>
  The dictionary \<^verbatim>\<open>penalty_details\<close>: three keys always, three more when penalties were
  applied.
\<close>

record penalty_details =
  pd_base_score :: real
  pd_penalties_applied :: "penalty_item list"
  pd_total_penalty :: int
  pd_proctoring_penalty :: "real option"
  pd_final_score_after_penalties :: "real option"
  pd_proctoring_stats :: "stats option"

record final_evaluation =
  fe_final_level :: string
  fe_level_score :: int
  fe_technical_score :: real
  fe_base_score :: real
  fe_overall_score :: real
  fe_level_progression :: "string list"
  fe_total_questions :: nat
  fe_questions_answered :: nat
  fe_performance_summary :: string
  fe_penalty_details :: penalty_details

text \<open>
  The truth value of \<^verbatim>\<open>if proctoring_stats:\<close>, for an argument that is \<^verbatim>\<open>None\<close> or a
  dictionary: false for \<^verbatim>\<open>None\<close> and for the empty dictionary.
\<close>

definition stats_given :: "stats option \<Rightarrow> bool" where
  "stats_given proctoring_stats = (case proctoring_stats of None \<Rightarrow> False | Some d \<Rightarrow> d \<noteq> [])"

text \<open>\<^verbatim>\<open>level_weights.get(self.current_level, 30)\<close> of the interview manager.\<close>

definition manager_level_weight :: "string \<Rightarrow> int" where
  "manager_level_weight level =
     (case map_of [(''easy'', 30), (''medium'', 70), (''hard'', 100)] level of
        Some w \<Rightarrow> w
      | None \<Rightarrow> 30)"

definition generate_performance_summary :: "interview_manager \<Rightarrow> string" where
  "generate_performance_summary m =
     (if current_level m = ''hard''
      then ''Excellent performance - reached the highest level demonstrating advanced knowledge.''
      else if current_level m = ''medium''
      then ''Good performance - solid understanding of intermediate concepts.''
      else ''Basic performance - demonstrated foundational knowledge with room for growth.'')"

text \<open>\<^verbatim>\<open>InterviewManager.calculate_final_evaluation(proctoring_stats)\<close>.\<close>

definition manager_calculate_final_evaluation :: "stats option \<Rightarrow> interview_manager \<Rightarrow> final_evaluation" where
  "manager_calculate_final_evaluation proctoring_stats m =
     (let level_score = manager_level_weight (current_level m);
          technical_scores = sd_technical_scores (session m);
          technical_score =
            (if technical_scores \<noteq> []
             then int_truediv (sum_list technical_scores) (int (length technical_scores))
             else 50);
          base_score = fadd (fmul (float_of_int level_score) (fl 0.6))
                            (fmul technical_score (fl 0.4));
          details = \<lparr> pd_base_score = py_round1 base_score,
                      pd_penalties_applied = [],
                      pd_total_penalty = 0,
                      pd_proctoring_penalty = None,
                      pd_final_score_after_penalties = None,
                      pd_proctoring_stats = None \<rparr>;
          proctoring_penalty =
            (if stats_given proctoring_stats
             then Some (fst (manager_calculate_proctoring_penalty (the proctoring_stats)))
             else None);
          final_score =
            (case proctoring_penalty of
               Some p \<Rightarrow> max 0 (fsub base_score (float_of_int p))
             | None \<Rightarrow> base_score);
          penalty_details =
            (case proctoring_penalty of
               Some p \<Rightarrow>
                 details \<lparr> pd_proctoring_penalty := Some (real_of_int p),
                           pd_final_score_after_penalties := Some (py_round1 final_score),
                           pd_proctoring_stats := proctoring_stats \<rparr>
             | None \<Rightarrow> details)
      in \<lparr> fe_final_level = current_level m,
           fe_level_score = level_score,
           fe_technical_score = py_round1 technical_score,
           fe_base_score = py_round1 base_score,
           fe_overall_score = py_round1 final_score,
           fe_level_progression = level_progression m,
           fe_total_questions = length (sd_questions_asked (session m)),
           fe_questions_answered = length (sd_candidate_answers (session m)),
           fe_performance_summary = generate_performance_summary m,
           fe_penalty_details = penalty_details \<rparr>)"

text \<open>
  The quantities of the final evaluation as the specification words them, in the
  arithmetic of the program: the level score of the table (any other value of the level
  reads 30, the default of the code's lookup), the mean of the recorded scores or 50 when
  there is none, and the 60/40 blend.
\<close>

definition spec_level_score :: "string \<Rightarrow> int" where
  "spec_level_score level =
     (if level = ''easy'' then 30 else if level = ''medium'' then 70
      else if level = ''hard'' then 100 else 30)"

definition technical_average :: "int list \<Rightarrow> real" where
  "technical_average scores =
     (if scores = [] then 50 else int_truediv (sum_list scores) (int (length scores)))"

definition spec_base_score :: "string \<Rightarrow> int list \<Rightarrow> real" where
  "spec_base_score level scores =
     fadd (fmul (float_of_int (spec_level_score level)) (fl 0.6))
          (fmul (technical_average scores) (fl 0.4))"

subsection \<open>The scoring service\<close>

record question_data =
  qd_question_number :: nat
  qd_question :: string
  qd_answer :: string
  qd_technical_score :: int
  qd_level :: string
  qd_analysis :: string

text \<open>
  The dictionary returned by \<^verbatim>\<open>ScoringService.calculate_final_evaluation\<close>. The early
  return has five keys and an empty \<^verbatim>\<open>penalty_details\<close>: there \<open>se_penalty_details\<close> and
  the keys of the full result are \<open>None\<close>.
\<close>

record service_evaluation =
  se_overall_score :: real
  se_technical_avg :: real
  se_final_level :: string
  se_total_questions :: nat
  se_penalty_details :: "penalty_details option"
  se_level_progression :: "string list option"
  se_question_breakdown :: "(nat \<times> int \<times> string) list option"
  se_strengths :: "string list option"
  se_areas_for_improvement :: "string list option"

text \<open>\<^verbatim>\<open>self.scoring_data\<close> of a \<^verbatim>\<open>ScoringService\<close>.\<close>

record scoring_service =
  sv_questions :: "question_data list"
  sv_technical :: "int list"
  sv_overall :: "real list"
  sv_level_progression :: "string list"
  sv_proctoring_penalties :: "(stats \<times> int) list"
  sv_final_evaluation :: "service_evaluation option"

definition initialize_scoring :: scoring_service where
  "initialize_scoring =
     \<lparr> sv_questions = [],
       sv_technical = [],
       sv_overall = [],
       sv_level_progression = [],
       sv_proctoring_penalties = [],
       sv_final_evaluation = None \<rparr>"

definition calculate_current_average :: "scoring_service \<Rightarrow> real" where
  "calculate_current_average s =
     (if sv_technical s = [] then 0.0
      else int_truediv (sum_list (sv_technical s)) (int (length (sv_technical s))))"

definition add_question_score ::
  "string \<Rightarrow> string \<Rightarrow> int \<Rightarrow> string \<Rightarrow> string \<Rightarrow> scoring_service \<Rightarrow> question_data \<times> scoring_service" where
  "add_question_score question answer technical_score level analysis s =
     (let question_data =
            \<lparr> qd_question_number = length (sv_questions s) + 1,
              qd_question = question,
              qd_answer = answer,
              qd_technical_score = technical_score,
              qd_level = level,
              qd_analysis = analysis \<rparr>;
          s1 = s \<lparr> sv_questions := sv_questions s @ [question_data],
                   sv_technical := sv_technical s @ [technical_score],
                   sv_level_progression := sv_level_progression s @ [level] \<rparr>;
          current_avg = calculate_current_average s1
      in (question_data, s1 \<lparr> sv_overall := sv_overall s1 @ [current_avg] \<rparr>))"

definition identify_strengths :: "scoring_service \<Rightarrow> string list" where
  "identify_strengths s =
     (let high_scores = filter (\<lambda>q. qd_technical_score q \<ge> 80) (sv_questions s);
          strengths1 = (if length high_scores \<ge> 3
                        then [''Strong technical knowledge in core areas''] else []);
          strengths2 = (if ''hard'' \<in> set (sv_level_progression s)
                        then strengths1 @ [''Capable of handling advanced concepts'']
                        else strengths1);
          scores = sv_technical s;
          strengths3 = (if length scores \<ge> 3 \<and>
                           fold max scores (hd scores) - fold min scores (hd scores) \<le> 20
                        then strengths2 @ [''Consistent performance across questions'']
                        else strengths2)
      in if strengths3 = [] then [''Demonstrates basic understanding''] else strengths3)"

definition identify_weaknesses :: "scoring_service \<Rightarrow> string list" where
  "identify_weaknesses s =
     (let low_scores = filter (\<lambda>q. qd_technical_score q < 60) (sv_questions s);
          weaknesses1 = (if low_scores \<noteq> []
                         then [''Needs improvement in technical depth''] else []);
          progression = sv_level_progression s;
          weaknesses2 = (if length progression \<ge> 2 \<and>
                            drop (length progression - 2) progression = [''easy'', ''easy'']
                         then weaknesses1 @ [''Could benefit from practicing intermediate concepts'']
                         else weaknesses1)
      in if weaknesses2 = [] then [''Continue building experience''] else weaknesses2)"

text \<open>\<^verbatim>\<open>level_weights.get(final_level, 0.3)\<close> of the scoring service.\<close>

definition service_level_weight :: "string \<Rightarrow> real" where
  "service_level_weight level =
     (case map_of [(''easy'', fl 0.3), (''medium'', fl 0.6), (''hard'', fl 1.0)] level of
        Some w \<Rightarrow> w
      | None \<Rightarrow> fl 0.3)"

text \<open>
  The blend of the scoring service as the specification words it, in the arithmetic of the
  program: \<open>technical_avg * 0.7 + level_weight * 100 * 0.3\<close> with the weights 0.3, 0.6 and
  1.0 (0.3 for any other level).
\<close>

definition spec_service_weight :: "string \<Rightarrow> real" where
  "spec_service_weight level =
     (if level = ''easy'' then fl 0.3 else if level = ''medium'' then fl 0.6
      else if level = ''hard'' then fl 1.0 else fl 0.3)"

definition spec_service_base :: "string \<Rightarrow> real \<Rightarrow> real" where
  "spec_service_base level technical_avg =
     fadd (fmul technical_avg (fl 0.7))
          (fmul (fmul (spec_service_weight level) (float_of_int 100)) (fl 0.3))"

text \<open>\<^verbatim>\<open>ScoringService.calculate_final_evaluation(final_level, proctoring_stats)\<close>.\<close>

definition service_calculate_final_evaluation ::
  "string \<Rightarrow> stats option \<Rightarrow> scoring_service \<Rightarrow> service_evaluation \<times> scoring_service" where
  "service_calculate_final_evaluation final_level proctoring_stats s =
     (if sv_questions s = []
      then (\<lparr> se_overall_score = 0,
              se_technical_avg = 0,
              se_final_level = final_level,
              se_total_questions = 0,
              se_penalty_details = None,
              se_level_progression = None,
              se_question_breakdown = None,
              se_strengths = None,
              se_areas_for_improvement = None \<rparr>, s)
      else
        (let level_weight = service_level_weight final_level;
             technical_avg = calculate_current_average s;
             base_score = fadd (fmul technical_avg (fl 0.7))
                               (fmul (fmul level_weight (float_of_int 100)) (fl 0.3));
             details = \<lparr> pd_base_score = py_round1 base_score,
                         pd_penalties_applied = [],
                         pd_total_penalty = 0,
                         pd_proctoring_penalty = None,
                         pd_final_score_after_penalties = None,
                         pd_proctoring_stats = None \<rparr>;
             proctoring_penalty =
               (if stats_given proctoring_stats
                then Some (fst (service_calculate_proctoring_penalty (the proctoring_stats)))
                else None);
             final_score =
               (case proctoring_penalty of
                  Some p \<Rightarrow> max 0 (fsub base_score (float_of_int p))
                | None \<Rightarrow> base_score);
             penalty_details =
               (case proctoring_penalty of
                  Some p \<Rightarrow>
                    details \<lparr> pd_proctoring_penalty := Some (real_of_int p),
                              pd_final_score_after_penalties := Some (py_round1 final_score),
                              pd_proctoring_stats := proctoring_stats \<rparr>
                | None \<Rightarrow> details);
             s1 = (case proctoring_penalty of
                     Some p \<Rightarrow>
                       s \<lparr> sv_proctoring_penalties :=
                             sv_proctoring_penalties s @ [(the proctoring_stats, p)] \<rparr>
                   | None \<Rightarrow> s);
             final_eval =
               \<lparr> se_overall_score = py_round1 final_score,
                 se_technical_avg = py_round1 technical_avg,
                 se_final_level = final_level,
                 se_total_questions = length (sv_questions s1),
                 se_penalty_details = Some penalty_details,
                 se_level_progression = Some (sv_level_progression s1),
                 se_question_breakdown =
                   Some (map (\<lambda>q. (qd_question_number q, qd_technical_score q, qd_level q))
                           (sv_questions s1)),
                 se_strengths = Some (identify_strengths s1),
                 se_areas_for_improvement = Some (identify_weaknesses s1) \<rparr>
         in (final_eval, s1 \<lparr> sv_final_evaluation := Some final_eval \<rparr>)))"

section \<open>Properties\<close>

subsection \<open>Level tracking\<close>


lemma determine_next_level_known:
  "known_level (current_level m) \<Longrightarrow> known_level (current_level (snd (determine_next_level s m)))"
  by (auto simp add: determine_next_level_def update_streaks_def should_promote_level_def
      should_demote_level_def change_level_def known_level_def Let_def)

lemma tracker_after_snoc:
  "tracker_after role cand (scores @ [s]) =
     snd (determine_next_level s (tracker_after role cand scores))"
  by (simp add: tracker_after_def)

lemma tracker_after_known: "known_level (current_level (tracker_after role cand scores))"
proof (induction scores rule: rev_induct)
  case Nil
  show ?case by (simp add: tracker_after_def new_manager_def known_level_def)
next
  case (snoc s scores)
  then show ?case by (simp only: tracker_after_snoc determine_next_level_known)
qed

lemma determine_next_level_streaks:
  "consecutive_correct (snd (determine_next_level s m)) =
     (if s \<ge> 60 then consecutive_correct m + 1 else 0)"
  "consecutive_incorrect (snd (determine_next_level s m)) =
     (if s \<ge> 60 then 0 else consecutive_incorrect m + 1)"
  by (simp_all add: determine_next_level_def update_streaks_def change_level_def Let_def)

lemma determine_next_level_level:
  "known_level (current_level m) \<Longrightarrow> current_level (snd (determine_next_level s m)) =
     (if current_level m \<noteq> ''hard'' \<and> consecutive_correct (snd (determine_next_level s m)) \<ge> 2
      then level_up (current_level m)
      else if current_level m \<noteq> ''easy'' \<and> consecutive_incorrect (snd (determine_next_level s m)) \<ge> 2
      then level_down (current_level m)
      else current_level m)"
  by (auto simp add: determine_next_level_def update_streaks_def change_level_def Let_def
      should_promote_level_def should_demote_level_def level_up_def level_down_def known_level_def)


lemma determine_next_level_fst:
  "fst (determine_next_level s m) = current_level (snd (determine_next_level s m))"
  by (simp add: determine_next_level_def Let_def)

lemma determine_next_level_rank:
  "known_level (current_level m) \<Longrightarrow>
   level_rank (current_level (snd (determine_next_level s m))) =
     level_rank (current_level m) +
     (if current_level m \<noteq> ''hard'' \<and> consecutive_correct (snd (determine_next_level s m)) \<ge> 2
      then 1
      else if current_level m \<noteq> ''easy'' \<and> consecutive_incorrect (snd (determine_next_level s m)) \<ge> 2
      then - 1 else 0)"
  by (auto simp add: determine_next_level_def update_streaks_def change_level_def Let_def
      should_promote_level_def should_demote_level_def level_rank_def known_level_def)

lemma determine_next_level_progression:
  "known_level (current_level m) \<Longrightarrow>
   level_progression (snd (determine_next_level s m)) =
     (if current_level (snd (determine_next_level s m)) \<noteq> current_level m
      then level_progression m @ [current_level (snd (determine_next_level s m))]
      else level_progression m)"
  by (auto simp add: determine_next_level_def update_streaks_def change_level_def Let_def
      should_promote_level_def should_demote_level_def known_level_def)

lemma tracker_after_streaks:
  "min (consecutive_correct (tracker_after role cand scores))
       (consecutive_incorrect (tracker_after role cand scores)) = 0 \<and>
   0 \<le> consecutive_correct (tracker_after role cand scores) \<and>
   0 \<le> consecutive_incorrect (tracker_after role cand scores)"
proof (induction scores rule: rev_induct)
  case Nil
  show ?case by (simp add: tracker_after_def new_manager_def)
next
  case (snoc s scores)
  then show ?case
    by (simp add: tracker_after_snoc determine_next_level_streaks)
qed

text \<open>
  Claim C1. In every state the tracker reaches from a fresh manager, whatever the scores so
  far, one call of \<^verbatim>\<open>determine_next_level(s)\<close> first updates the streak counters
  (a score of at least 60 increments \<open>consecutive_correct\<close> and zeroes
  \<open>consecutive_incorrect\<close>, any other score does the opposite); then it moves the level one
  step up exactly when the level is not hard and the updated \<open>consecutive_correct\<close> is at
  least 2, otherwise one step down exactly when the level is not easy and the updated
  \<open>consecutive_incorrect\<close> is at least 2, otherwise not at all. The position of the level in
  the order easy, medium, hard changes by +1, -1 or 0 accordingly, and the returned value
  is the new level.
\<close>

theorem determine_next_level_rule:
  "(let m = tracker_after role cand scores;
        m' = snd (determine_next_level s m)
    in consecutive_correct m' = (if s \<ge> 60 then consecutive_correct m + 1 else 0)
     \<and> consecutive_incorrect m' = (if s \<ge> 60 then 0 else consecutive_incorrect m + 1)
     \<and> current_level m' =
         (if current_level m \<noteq> ''hard'' \<and> consecutive_correct m' \<ge> 2
          then level_up (current_level m)
          else if current_level m \<noteq> ''easy'' \<and> consecutive_incorrect m' \<ge> 2
          then level_down (current_level m)
          else current_level m)
     \<and> level_rank (current_level m') = level_rank (current_level m) +
         (if current_level m \<noteq> ''hard'' \<and> consecutive_correct m' \<ge> 2 then 1
          else if current_level m \<noteq> ''easy'' \<and> consecutive_incorrect m' \<ge> 2 then - 1
          else 0)
     \<and> fst (determine_next_level s m) = current_level m'
     \<and> known_level (current_level m) \<and> known_level (current_level m'))"
proof -
  let ?m = "tracker_after role cand scores"
  have k: "known_level (current_level ?m)" by (rule tracker_after_known)
  have k': "known_level (current_level (snd (determine_next_level s ?m)))"
    using k by (rule determine_next_level_known)
  show ?thesis
    unfolding Let_def
    using determine_next_level_streaks [of s ?m] determine_next_level_level [OF k, of s]
      determine_next_level_rank [OF k, of s] determine_next_level_fst [of s ?m] k k'
    by simp
qed

text \<open>
  Claim C2. After every sequence of technical scores applied to a fresh manager (level easy,
  both counters 0), the smaller of the two streak counters is 0 and neither is negative.
  Every prefix of a sequence is a sequence, so this holds after every call, level changes
  included.
\<close>

theorem streak_counters_exclusive:
  "(let m = tracker_after role cand scores
    in min (consecutive_correct m) (consecutive_incorrect m) = 0
     \<and> 0 \<le> consecutive_correct m \<and> 0 \<le> consecutive_incorrect m)"
  unfolding Let_def by (rule tracker_after_streaks)

lemma tracker_examples:
  "current_level (tracker_after role cand [60, 60]) = ''medium''"
  "current_level (tracker_after role cand [60, 60, 60]) = ''hard''"
  "current_level (tracker_after role cand [60, 60, 60, 0, 0]) = ''medium''"
  "current_level (tracker_after role cand [60, 60, 60, 0, 0, 0]) = ''easy''"
  by (simp_all add: tracker_after_def new_manager_def determine_next_level_def update_streaks_def
      change_level_def Let_def should_promote_level_def should_demote_level_def)

text \<open>
  Claim C7. \<^verbatim>\<open>_change_level\<close> leaves both streak counters as they are, sets the level
  and appends it to \<open>level_progression\<close>. The progression of a fresh manager is
  \<open>[easy]\<close>, and a call of \<^verbatim>\<open>determine_next_level\<close> in a reachable state appends
  the new level when the level changed and nothing otherwise. Since the counters survive
  the change, two passing scores promote to medium and a single further passing score
  promotes again, to hard; two failing scores at hard demote to medium and a single further
  failing score demotes again, to easy.
\<close>

theorem change_level_keeps_streaks:
  "consecutive_correct (change_level l r m) = consecutive_correct m
   \<and> consecutive_incorrect (change_level l r m) = consecutive_incorrect m
   \<and> current_level (change_level l r m) = l
   \<and> level_progression (change_level l r m) = level_progression m @ [l]
   \<and> level_progression (new_manager role cand) = [''easy'']
   \<and> (let t = tracker_after role cand scores; t' = snd (determine_next_level s t)
      in level_progression t' =
           (if current_level t' \<noteq> current_level t
            then level_progression t @ [current_level t'] else level_progression t))
   \<and> current_level (tracker_after role cand [60, 60]) = ''medium''
   \<and> current_level (tracker_after role cand [60, 60, 60]) = ''hard''
   \<and> current_level (tracker_after role cand [60, 60, 60, 0, 0]) = ''medium''
   \<and> current_level (tracker_after role cand [60, 60, 60, 0, 0, 0]) = ''easy''"
proof -
  have frame: "consecutive_correct (change_level l r m) = consecutive_correct m
     \<and> consecutive_incorrect (change_level l r m) = consecutive_incorrect m
     \<and> current_level (change_level l r m) = l
     \<and> level_progression (change_level l r m) = level_progression m @ [l]"
    by (simp add: change_level_def Let_def)
  have start: "level_progression (new_manager role cand) = [''easy'']"
    by (simp add: new_manager_def)
  have grow: "(let t = tracker_after role cand scores; t' = snd (determine_next_level s t)
      in level_progression t' =
           (if current_level t' \<noteq> current_level t
            then level_progression t @ [current_level t'] else level_progression t))"
    unfolding Let_def
    by (rule determine_next_level_progression [OF tracker_after_known])
  from frame start grow tracker_examples [of role cand] show ?thesis by blast
qed

subsection \<open>Proctoring penalties\<close>

lemma if_add_int: "(if c then a + b else a) = a + (if c then b else (0::int))"
  by simp

lemma manager_penalty_fst:
  "fst (manager_calculate_proctoring_penalty d) =
     min ((if 0 < stat_get d ''tab_switch_count'' then min (stat_get d ''tab_switch_count'' * 2) 20 else 0)
          + min ((if 0 < stat_get d ''multiple_faces'' then 15 * stat_get d ''multiple_faces'' else 0)
                 + (if 0 < stat_get d ''face_coverings'' then min (stat_get d ''face_coverings'' * 5) 25 else 0)
                 + (if 0 < stat_get d ''eye_coverings'' then min (stat_get d ''eye_coverings'' * 5) 25 else 0)
                 + (if 0 < stat_get d ''no_face_count'' then min (stat_get d ''no_face_count'' * 2) 15 else 0)) 50
          + (if 0 < stat_get d ''total_alerts'' then min (stat_get d ''total_alerts'' * 1) 10 else 0)) 70"
  unfolding manager_calculate_proctoring_penalty_def Let_def fst_conv
  by (simp only: if_add_int [symmetric] add_0)

lemma service_eq_manager:
  "service_calculate_proctoring_penalty d = manager_calculate_proctoring_penalty d"
  by (simp only: manager_calculate_proctoring_penalty_def service_calculate_proctoring_penalty_def Let_def)

lemma cap2: "0 \<le> x \<Longrightarrow> 0 \<le> c \<Longrightarrow> (if 0 < x then min (x * 2) c else 0) = min (2 * x) (c::int)"
  by (cases "x = 0") (auto simp: mult.commute)

lemma cap5: "0 \<le> x \<Longrightarrow> 0 \<le> c \<Longrightarrow> (if 0 < x then min (x * 5) c else 0) = min (5 * x) (c::int)"
  by (cases "x = 0") (auto simp: mult.commute)

lemma cap1: "0 \<le> x \<Longrightarrow> 0 \<le> c \<Longrightarrow> (if 0 < x then min (x * 1) c else 0) = min (1 * x) (c::int)"
  by (cases "x = 0") (auto simp: mult.commute)

lemma lin15: "0 \<le> x \<Longrightarrow> (if 0 < x then 15 * x else 0) = 15 * (x::int)"
  by (cases "x = 0") auto

lemma stat_get_nonneg: "list_all (\<lambda>kv. 0 \<le> snd kv) d \<Longrightarrow> 0 \<le> stat_get d key"
  by (auto simp: stat_get_def list_all_iff split: option.splits dest!: map_of_SomeD)

lemma manager_penalty_spec:
  assumes "list_all (\<lambda>kv. 0 \<le> snd kv) d"
  shows "fst (manager_calculate_proctoring_penalty d) =
    spec_penalty (stat_get d ''tab_switch_count'') (stat_get d ''multiple_faces'')
      (stat_get d ''face_coverings'') (stat_get d ''eye_coverings'')
      (stat_get d ''no_face_count'') (stat_get d ''total_alerts'')"
  unfolding manager_penalty_fst spec_penalty_def
  using stat_get_nonneg [OF assms]
  by (simp only: cap2 cap5 cap1 lin15 zero_le_numeral)

lemma pos_part_nonneg: "0 \<le> c \<Longrightarrow> 0 \<le> k \<Longrightarrow> 0 \<le> (if 0 < x then min (x * k) c else (0::int))"
  by simp

lemma manager_penalty_range:
  "0 \<le> fst (manager_calculate_proctoring_penalty d) \<and> fst (manager_calculate_proctoring_penalty d) \<le> 70"
proof -
  define a where "a = (if 0 < stat_get d ''tab_switch_count'' then min (stat_get d ''tab_switch_count'' * 2) 20 else 0)"
  define f where "f = (if 0 < stat_get d ''multiple_faces'' then 15 * stat_get d ''multiple_faces'' else 0)
                 + (if 0 < stat_get d ''face_coverings'' then min (stat_get d ''face_coverings'' * 5) 25 else 0)
                 + (if 0 < stat_get d ''eye_coverings'' then min (stat_get d ''eye_coverings'' * 5) 25 else 0)
                 + (if 0 < stat_get d ''no_face_count'' then min (stat_get d ''no_face_count'' * 2) 15 else 0)"
  define b where "b = (if 0 < stat_get d ''total_alerts'' then min (stat_get d ''total_alerts'' * 1) 10 else 0)"
  have a: "0 \<le> a" unfolding a_def by (rule pos_part_nonneg) simp_all
  have b: "0 \<le> b" unfolding b_def by (rule pos_part_nonneg) simp_all
  have m: "0 \<le> (if 0 < stat_get d ''multiple_faces'' then 15 * stat_get d ''multiple_faces'' else 0)"
    by simp
  have f: "0 \<le> f" unfolding f_def
    using m pos_part_nonneg [of 25 5 "stat_get d ''face_coverings''"]
      pos_part_nonneg [of 25 5 "stat_get d ''eye_coverings''"]
      pos_part_nonneg [of 15 2 "stat_get d ''no_face_count''"]
    by linarith
  have eq: "fst (manager_calculate_proctoring_penalty d) = min (a + min f 50 + b) 70"
    unfolding manager_penalty_fst a_def f_def b_def ..
  show ?thesis unfolding eq using a b f by simp
qed

lemma penalty_examples:
  "fst (manager_calculate_proctoring_penalty [(''tab_switch_count'', 15)]) = 20"
  "fst (manager_calculate_proctoring_penalty
     [(''multiple_faces'', 1), (''face_coverings'', 10), (''eye_coverings'', 10), (''no_face_count'', 20)]) = 50"
  by (simp_all add: manager_penalty_fst stat_get_def)

text \<open>
  Claim C3. For a statistics dictionary whose counts are all non-negative, the penalty of
  the interview manager and that of the scoring service are both
  \<open>min (min (2 * tab) 20 + min (15 * faces + min (5 * face) 25 + min (5 * eyes) 25 +
  min (2 * noface) 15) 50 + min (1 * alerts) 10) 70\<close>, hence between 0 and 70. Fifteen tab
  switches alone cost 20, and one second face with ten face coverings, ten eye coverings
  and twenty frames without a face cost 50, although the capped parts add up to 80.
\<close>

theorem proctoring_penalty_formula:
  assumes "list_all (\<lambda>kv. 0 \<le> snd kv) d"
  shows "fst (manager_calculate_proctoring_penalty d) =
           spec_penalty (stat_get d ''tab_switch_count'') (stat_get d ''multiple_faces'')
             (stat_get d ''face_coverings'') (stat_get d ''eye_coverings'')
             (stat_get d ''no_face_count'') (stat_get d ''total_alerts'')
       \<and> fst (service_calculate_proctoring_penalty d) = fst (manager_calculate_proctoring_penalty d)
       \<and> 0 \<le> fst (manager_calculate_proctoring_penalty d)
       \<and> fst (manager_calculate_proctoring_penalty d) \<le> 70
       \<and> fst (manager_calculate_proctoring_penalty [(''tab_switch_count'', 15)]) = 20
       \<and> fst (service_calculate_proctoring_penalty [(''tab_switch_count'', 15)]) = 20
       \<and> fst (manager_calculate_proctoring_penalty
            [(''multiple_faces'', 1), (''face_coverings'', 10), (''eye_coverings'', 10),
             (''no_face_count'', 20)]) = 50
       \<and> fst (service_calculate_proctoring_penalty
            [(''multiple_faces'', 1), (''face_coverings'', 10), (''eye_coverings'', 10),
             (''no_face_count'', 20)]) = 50
       \<and> 15 * 1 + min (5 * 10) 25 + min (5 * 10) 25 + min (2 * 20) (15::int) = 80"
  using manager_penalty_spec [OF assms] manager_penalty_range [of d] penalty_examples
  by (simp add: service_eq_manager)

theorem proctoring_penalty_formula_witness:
  "list_all (\<lambda>kv. 0 \<le> snd kv)
     [(''tab_switch_count'', 15), (''multiple_faces'', 1), (''face_coverings'', 10),
      (''eye_coverings'', 10), (''no_face_count'', 20), (''total_alerts'', 12::int)]
   \<and> fst (manager_calculate_proctoring_penalty
       [(''tab_switch_count'', 15), (''multiple_faces'', 1), (''face_coverings'', 10),
        (''eye_coverings'', 10), (''no_face_count'', 20), (''total_alerts'', 12)])
     = spec_penalty 15 1 10 10 20 12
   \<and> spec_penalty 15 1 10 10 20 12 = 70"
proof -
  have h: "list_all (\<lambda>kv. 0 \<le> snd kv)
     [(''tab_switch_count'', 15), (''multiple_faces'', 1), (''face_coverings'', 10),
      (''eye_coverings'', 10), (''no_face_count'', 20), (''total_alerts'', 12::int)]"
    by simp
  from proctoring_penalty_formula [OF h] h show ?thesis
    by (simp add: stat_get_def spec_penalty_def)
qed

subsection \<open>Floating-point rounding\<close>

declare binade_up.simps [simp del] binade_down.simps [simp del]

lemma two_powi_pos: "0 < (2::real) powi k"
  by simp

lemma two_powi_Suc: "(2::real) powi (k + 1) = 2 * 2 powi k"
  by (simp add: power_int_add)

lemma two_powi_mono: "j \<le> k \<Longrightarrow> (2::real) powi j \<le> 2 powi k"
  by (rule power_int_increasing) simp_all

lemma binade_up_spec:
  "1 \<le> x \<Longrightarrow> e \<le> binade_up x e \<and> 2 powi (binade_up x e - e) \<le> x
      \<and> x < 2 powi (binade_up x e - e + 1)"
proof (induction x e rule: binade_up.induct)
  case (1 x e)
  show ?case
  proof (cases "x < 2")
    case True
    then show ?thesis using 1(2) by (simp add: binade_up.simps [of x e])
  next
    case False
    then have h: "1 \<le> x / 2" by simp
    let ?r = "binade_up (x / 2) (e + 1)"
    have eq: "binade_up x e = ?r" using False by (simp add: binade_up.simps [of x e])
    from 1(1) [OF False h]
    have a: "e + 1 \<le> ?r" and b: "2 powi (?r - (e + 1)) \<le> x / 2"
      and c: "x / 2 < 2 powi (?r - (e + 1) + 1)" by auto
    have s1: "(2::real) powi (?r - e) = 2 * 2 powi (?r - (e + 1))"
      using two_powi_Suc [of "?r - (e + 1)"] by (simp add: algebra_simps)
    have s2: "(2::real) powi (?r - e + 1) = 2 * 2 powi (?r - (e + 1) + 1)"
      using two_powi_Suc [of "?r - (e + 1) + 1"] by (simp add: algebra_simps)
    show ?thesis unfolding eq s1 s2 using a b c by simp
  qed
qed

lemma binade_down_spec:
  "0 < x \<Longrightarrow> x < 2 \<Longrightarrow> - 1022 \<le> e \<Longrightarrow>
     - 1022 \<le> binade_down x e \<and> binade_down x e \<le> e
     \<and> x * 2 powi (e - binade_down x e) < 2
     \<and> (1 \<le> x * 2 powi (e - binade_down x e) \<or> binade_down x e = - 1022)"
proof (induction x e rule: binade_down.induct)
  case (1 x e)
  show ?case
  proof (cases "1 \<le> x \<or> e \<le> - 1022")
    case True
    then have eq: "binade_down x e = e" by (simp add: binade_down.simps [of x e])
    show ?thesis unfolding eq using True 1(3,4) by auto
  next
    case False
    let ?r = "binade_down (2 * x) (e - 1)"
    have eq: "binade_down x e = ?r" using False by (simp add: binade_down.simps [of x e])
    have p: "0 < 2 * x" "2 * x < 2" "- 1022 \<le> e - 1" using False 1(2) by auto
    from 1(1) [OF False p]
    have a: "- 1022 \<le> ?r" and b: "?r \<le> e - 1"
      and c: "2 * x * 2 powi (e - 1 - ?r) < 2"
      and d: "1 \<le> 2 * x * 2 powi (e - 1 - ?r) \<or> ?r = - 1022" by auto
    have s: "(2::real) powi (e - ?r) = 2 * 2 powi (e - 1 - ?r)"
      using two_powi_Suc [of "e - 1 - ?r"] by (simp add: algebra_simps)
    show ?thesis unfolding eq s using a b c d by (simp add: algebra_simps)
  qed
qed

lemma binade_spec:
  assumes "0 < x"
  shows "- 1022 \<le> binade x \<and> x < 2 powi (binade x + 1)
     \<and> (2 powi binade x \<le> x \<or> binade x = - 1022)"
proof (cases "1 \<le> x")
  case True
  then show ?thesis using binade_up_spec [OF True, of 0] by (simp add: binade_def)
next
  case False
  then have x2: "x < 2" by simp
  let ?r = "binade_down x 0"
  from binade_down_spec [OF assms x2, of 0]
  have a: "- 1022 \<le> ?r" and b: "?r \<le> 0" and c: "x * 2 powi (- ?r) < 2"
    and d: "1 \<le> x * 2 powi (- ?r) \<or> ?r = - 1022" by auto
  have inv: "(2::real) powi (- ?r) * 2 powi ?r = 1"
    by (simp add: power_int_minus)
  have pos: "0 < (2::real) powi ?r" by simp
  have c': "x < 2 powi (?r + 1)"
  proof -
    have "x * 2 powi (- ?r) * 2 powi ?r < 2 * 2 powi ?r"
      using c pos by (rule mult_strict_right_mono)
    then show ?thesis using inv by (simp add: two_powi_Suc mult.assoc)
  qed
  have d': "2 powi ?r \<le> x \<or> ?r = - 1022"
  proof (cases "?r = - 1022")
    case True then show ?thesis by simp
  next
    case False
    then have "1 \<le> x * 2 powi (- ?r)" using d by simp
    then have "1 * 2 powi ?r \<le> x * 2 powi (- ?r) * 2 powi ?r"
      using pos by (intro mult_right_mono) simp_all
    then show ?thesis using inv by (simp add: mult.assoc)
  qed
  show ?thesis using False a c' d' by (simp add: binade_def)
qed

lemma binade_mono:
  assumes "0 < x" "x \<le> y"
  shows "binade x \<le> binade y"
proof (rule ccontr)
  assume "\<not> binade x \<le> binade y"
  then have lt: "binade y + 1 \<le> binade x" by simp
  have y: "0 < y" using assms by simp
  have "binade x \<noteq> - 1022" using lt binade_spec [OF y] by linarith
  then have "2 powi binade x \<le> x" using binade_spec [OF assms(1)] by simp
  moreover have "y < 2 powi (binade y + 1)" using binade_spec [OF y] by simp
  moreover have "(2::real) powi (binade y + 1) \<le> 2 powi binade x" using lt by (rule two_powi_mono)
  ultimately show False using assms(2) by linarith
qed


lemma round_half_even_bounds:
  assumes "real_of_int a \<le> x" "x \<le> real_of_int b"
  shows "a \<le> round_half_even x \<and> round_half_even x \<le> b"
proof -
  have lo: "a \<le> \<lfloor>x\<rfloor>" using assms(1) by (simp add: le_floor_iff)
  have hi: "\<lfloor>x\<rfloor> \<le> b" using assms(2) by (simp add: floor_le_iff)
  have step: "x - real_of_int \<lfloor>x\<rfloor> \<ge> 1 / 2 \<Longrightarrow> \<lfloor>x\<rfloor> + 1 \<le> b"
  proof -
    assume "x - real_of_int \<lfloor>x\<rfloor> \<ge> 1 / 2"
    then have "real_of_int \<lfloor>x\<rfloor> < real_of_int b" using assms(2) by linarith
    then show ?thesis by simp
  qed
  show ?thesis
    unfolding round_half_even_def Let_def using lo hi step by auto
qed

lemma round_half_even_range: "\<lfloor>x\<rfloor> \<le> round_half_even x \<and> round_half_even x \<le> \<lfloor>x\<rfloor> + 1"
  unfolding round_half_even_def Let_def by auto

lemma round_half_even_mono:
  assumes "x \<le> y"
  shows "round_half_even x \<le> round_half_even y"
proof (cases "\<lfloor>x\<rfloor> = \<lfloor>y\<rfloor>")
  case True
  have "x - real_of_int \<lfloor>x\<rfloor> \<le> y - real_of_int \<lfloor>x\<rfloor>" using assms by simp
  then show ?thesis unfolding round_half_even_def Let_def True [symmetric] by auto
next
  case False
  have "\<lfloor>x\<rfloor> \<le> \<lfloor>y\<rfloor>" using assms by (rule floor_mono)
  with False have "\<lfloor>x\<rfloor> + 1 \<le> \<lfloor>y\<rfloor>" by simp
  then show ?thesis
    using round_half_even_range [of x] round_half_even_range [of y] by linarith
qed

lemma fl_pos:
  "0 < x \<Longrightarrow> fl x = real_of_int (round_half_even (x / 2 powi (binade x - 52))) * 2 powi (binade x - 52)"
  by (simp add: fl_def Let_def)

lemma fl_minus: "fl (- x) = - fl x"
  by (simp add: fl_def Let_def)

lemma fl_zero: "fl 0 = 0"
  by (simp add: fl_def)

lemma fl_nonneg:
  assumes "0 \<le> x"
  shows "0 \<le> fl x"
proof (cases "x = 0")
  case True
  then show ?thesis by (simp add: fl_zero)
next
  case False
  then have x: "0 < x" using assms by simp
  have "real_of_int 0 \<le> x / 2 powi (binade x - 52)" using x by simp
  then have "0 \<le> round_half_even (x / 2 powi (binade x - 52))"
    using round_half_even_mono [of "real_of_int 0" "x / 2 powi (binade x - 52)"]
    by (simp add: round_half_even_def)
  then show ?thesis unfolding fl_pos [OF x] by simp
qed

lemma fl_pos_mono:
  assumes x: "0 < x" and le: "x \<le> y"
  shows "fl x \<le> fl y"
proof -
  have y: "0 < y" using assms by simp
  let ?ux = "(2::real) powi (binade x - 52)"
  let ?uy = "(2::real) powi (binade y - 52)"
  have bm: "binade x \<le> binade y" using x le by (rule binade_mono)
  show ?thesis
  proof (cases "binade x = binade y")
    case True
    have "x / ?ux \<le> y / ?ux" using le by (simp add: divide_right_mono)
    then have "round_half_even (x / ?ux) \<le> round_half_even (y / ?ux)"
      by (rule round_half_even_mono)
    then have "real_of_int (round_half_even (x / ?ux)) * ?ux \<le> real_of_int (round_half_even (y / ?ux)) * ?ux"
      by (intro mult_right_mono) simp_all
    then show ?thesis unfolding fl_pos [OF x] fl_pos [OF y] True [symmetric] .
  next
    case False
    with bm have lt: "binade x + 1 \<le> binade y" by simp
    have xs: "x < 2 powi (binade x + 1)" using binade_spec [OF x] by simp
    have split: "(2::real) powi (binade x + 1) = 2 ^ 53 * ?ux"
    proof -
      have "binade x + 1 = 53 + (binade x - 52)" by simp
      then have "(2::real) powi (binade x + 1) = 2 powi (53 + (binade x - 52))" by (rule arg_cong)
      also have "\<dots> = 2 powi 53 * ?ux" by (rule power_int_add) simp
      finally show ?thesis by simp
    qed
    have "x / ?ux \<le> real_of_int (2 ^ 53)"
      using xs unfolding split by (simp add: divide_le_eq)
    then have "round_half_even (x / ?ux) \<le> 2 ^ 53"
      using round_half_even_bounds [of "\<lfloor>x / ?ux\<rfloor>" "x / ?ux" "2 ^ 53"] by simp
    then have "real_of_int (round_half_even (x / ?ux)) \<le> 2 ^ 53"
      by (metis of_int_le_iff of_int_numeral of_int_power)
    then have "real_of_int (round_half_even (x / ?ux)) * ?ux \<le> 2 ^ 53 * ?ux"
      by (intro mult_right_mono) simp_all
    then have up: "fl x \<le> 2 powi (binade x + 1)" unfolding fl_pos [OF x] split .
    have "binade y \<noteq> - 1022" using lt binade_spec [OF x] by linarith
    then have ys: "2 powi binade y \<le> y" using binade_spec [OF y] by simp
    have splity: "(2::real) powi binade y = 2 ^ 52 * ?uy"
    proof -
      have "binade y = 52 + (binade y - 52)" by simp
      then have "(2::real) powi binade y = 2 powi (52 + (binade y - 52))" by (rule arg_cong)
      also have "\<dots> = 2 powi 52 * ?uy" by (rule power_int_add) simp
      finally show ?thesis by simp
    qed
    have "real_of_int (2 ^ 52) \<le> y / ?uy"
      using ys unfolding splity by (simp add: le_divide_eq)
    then have "2 ^ 52 \<le> round_half_even (y / ?uy)"
      using round_half_even_bounds [of "2 ^ 52" "y / ?uy" "\<lfloor>y / ?uy\<rfloor> + 1"] by simp
    then have "2 ^ 52 \<le> real_of_int (round_half_even (y / ?uy))"
      by (metis of_int_le_iff of_int_numeral of_int_power)
    then have "2 ^ 52 * ?uy \<le> real_of_int (round_half_even (y / ?uy)) * ?uy"
      by (intro mult_right_mono) simp_all
    then have down: "2 powi binade y \<le> fl y" unfolding fl_pos [OF y] splity .
    have "(2::real) powi (binade x + 1) \<le> 2 powi binade y" using lt by (rule two_powi_mono)
    with up down show ?thesis by linarith
  qed
qed

lemma fl_mono:
  assumes "x \<le> y"
  shows "fl x \<le> fl y"
proof -
  consider "0 < x" | "x \<le> 0" "0 \<le> y" | "y < 0" by linarith
  then show ?thesis
  proof cases
    case 1
    then show ?thesis using assms by (rule fl_pos_mono)
  next
    case 2
    have "0 \<le> fl (- x)" using 2(1) by (intro fl_nonneg) simp
    then have "fl x \<le> 0" by (simp add: fl_minus)
    moreover have "0 \<le> fl y" using 2(2) by (rule fl_nonneg)
    ultimately show ?thesis by simp
  next
    case 3
    then have "0 < - y" "- y \<le> - x" using assms by simp_all
    then have "fl (- y) \<le> fl (- x)" by (rule fl_pos_mono)
    then show ?thesis by (simp add: fl_minus)
  qed
qed

lemma round_half_even_near: "\<bar>real_of_int (round_half_even x) - x\<bar> \<le> 1 / 2"
  unfolding round_half_even_def Let_def by (auto simp: abs_if; linarith)

lemma fl_values:
  "fl 100 = 100" "fl (100 * fl 0.6) = 60" "fl (100 * fl 0.4) = 40"
  by code_simp+

lemma fl_range:
  assumes "0 \<le> x" "x \<le> 100"
  shows "0 \<le> fl x \<and> fl x \<le> 100"
  using fl_nonneg [OF assms(1)] fl_mono [OF assms(2)] by (simp add: fl_values)

lemma py_round1_tenth:
  "\<exists>k. py_round1 x = fl (real_of_int k / 10) \<and> \<bar>real_of_int k / 10 - x\<bar> \<le> 1 / 20"
proof -
  have "\<bar>real_of_int (round_half_even (x * 10)) - x * 10\<bar> \<le> 1 / 2"
    by (rule round_half_even_near)
  then have "\<bar>real_of_int (round_half_even (x * 10)) / 10 - x\<bar> \<le> 1 / 20"
    by (simp add: abs_if field_simps split: if_splits)
  then show ?thesis unfolding py_round1_def by blast
qed

lemma py_round1_range:
  assumes "0 \<le> x" "x \<le> 100"
  shows "0 \<le> py_round1 x \<and> py_round1 x \<le> 100"
proof -
  have "0 \<le> round_half_even (x * 10) \<and> round_half_even (x * 10) \<le> 1000"
    using assms by (intro round_half_even_bounds) simp_all
  then have "0 \<le> real_of_int (round_half_even (x * 10)) / 10"
    and "real_of_int (round_half_even (x * 10)) / 10 \<le> 100" by simp_all
  then show ?thesis unfolding py_round1_def by (rule fl_range)
qed

lemma py_round1_values:
  "py_round1 75 = 75" "py_round1 90 = 90" "py_round1 38 = 38"
  "py_round1 62 = 62" "py_round1 80 = 80" "py_round1 50 = 50"
  by code_simp+

subsection \<open>Sessions: recorded scores and the level\<close>

lemma evaluate_answer_quality_range:
  "0 \<le> evaluate_answer_quality reply answer \<and> evaluate_answer_quality reply answer \<le> 100"
  unfolding evaluate_answer_quality_def Let_def
  by (cases reply; cases "findall_number None (strip (projr reply))") simp_all

lemma determine_next_level_scores:
  "sd_technical_scores (session (snd (determine_next_level s m))) = sd_technical_scores (session m)"
  by (simp add: determine_next_level_def update_streaks_def change_level_def Let_def)

lemma analyze_frame:
  "session (snd (analyze_answer_and_generate_question reply pick q a m)) = session m \<and>
   current_level (snd (analyze_answer_and_generate_question reply pick q a m)) = current_level m \<and>
   job_role (snd (analyze_answer_and_generate_question reply pick q a m)) = job_role m"
  unfolding analyze_answer_and_generate_question_def Let_def
  by (simp split: sum.split option.split prod.split)


lemma determine_next_level_role:
  "job_role (snd (determine_next_level s m)) = job_role m"
  by (simp add: determine_next_level_def update_streaks_def change_level_def Let_def)

lemma process_answer_scores:
  "sd_technical_scores (session (snd (process_answer sr qr pick q a m))) =
     sd_technical_scores (session m) @ [evaluate_answer_quality sr a]"
  by (simp add: process_answer_def Let_def case_prod_beta analyze_frame determine_next_level_scores)

lemma process_answer_level:
  "current_level (snd (process_answer sr qr pick q a m)) =
     current_level (snd (determine_next_level (evaluate_answer_quality sr a) m))"
  by (simp add: process_answer_def Let_def case_prod_beta analyze_frame determine_next_level_def
      update_streaks_def change_level_def should_promote_level_def should_demote_level_def)

lemma skip_frame:
  "sd_technical_scores (session (snd (get_next_question_without_answer reply pick q m))) =
     sd_technical_scores (session m) \<and>
   current_level (snd (get_next_question_without_answer reply pick q m)) = current_level m"
  unfolding get_next_question_without_answer_def Let_def
  by (simp split: sum.split)

lemma analyze_streaks:
  "consecutive_correct (snd (analyze_answer_and_generate_question reply pick q a m)) = consecutive_correct m \<and>
   consecutive_incorrect (snd (analyze_answer_and_generate_question reply pick q a m)) = consecutive_incorrect m"
  unfolding analyze_answer_and_generate_question_def Let_def
  by (simp split: sum.split option.split prod.split)

lemma process_answer_streaks:
  "consecutive_correct (snd (process_answer sr qr pick q a m)) =
     consecutive_correct (snd (determine_next_level (evaluate_answer_quality sr a) m)) \<and>
   consecutive_incorrect (snd (process_answer sr qr pick q a m)) =
     consecutive_incorrect (snd (determine_next_level (evaluate_answer_quality sr a) m))"
  by (simp add: process_answer_def Let_def case_prod_beta analyze_streaks determine_next_level_streaks)

lemma skip_streaks:
  "consecutive_correct (snd (get_next_question_without_answer reply pick q m)) = consecutive_correct m \<and>
   consecutive_incorrect (snd (get_next_question_without_answer reply pick q m)) = consecutive_incorrect m"
  unfolding get_next_question_without_answer_def Let_def
  by (simp split: sum.split)

lemma determine_next_level_cong:
  assumes "current_level m = current_level t" "consecutive_correct m = consecutive_correct t"
    "consecutive_incorrect m = consecutive_incorrect t"
  shows "current_level (snd (determine_next_level s m)) = current_level (snd (determine_next_level s t)) \<and>
    consecutive_correct (snd (determine_next_level s m)) = consecutive_correct (snd (determine_next_level s t)) \<and>
    consecutive_incorrect (snd (determine_next_level s m)) = consecutive_incorrect (snd (determine_next_level s t))"
  using assms
  by (simp add: determine_next_level_def update_streaks_def change_level_def Let_def
      should_promote_level_def should_demote_level_def)

lemma foldl_take_turn_scores:
  "sd_technical_scores (session (foldl take_turn m turns)) =
     sd_technical_scores (session m) @ recorded_scores turns"
proof (induction turns arbitrary: m)
  case Nil
  show ?case by simp
next
  case (Cons t turns)
  show ?case
    by (cases t) (simp_all add: Cons.IH process_answer_scores skip_frame)
qed

lemma foldl_take_turn_tracker:
  assumes "current_level m = current_level t" "consecutive_correct m = consecutive_correct t"
    "consecutive_incorrect m = consecutive_incorrect t"
  shows "current_level (foldl take_turn m turns) =
           current_level (foldl (\<lambda>m s. snd (determine_next_level s m)) t (recorded_scores turns))"
  using assms
proof (induction turns arbitrary: m t)
  case Nil
  then show ?case by simp
next
  case (Cons x turns)
  show ?case
  proof (cases x)
    case (Answered sr qr pick q a)
    let ?s = "evaluate_answer_quality sr a"
    have c: "current_level (snd (process_answer sr qr pick q a m)) = current_level (snd (determine_next_level ?s t))
       \<and> consecutive_correct (snd (process_answer sr qr pick q a m)) = consecutive_correct (snd (determine_next_level ?s t))
       \<and> consecutive_incorrect (snd (process_answer sr qr pick q a m)) = consecutive_incorrect (snd (determine_next_level ?s t))"
      using determine_next_level_cong [OF Cons.prems, of ?s]
      by (simp add: process_answer_level process_answer_streaks)
    show ?thesis
      using Cons.IH [of "snd (process_answer sr qr pick q a m)" "snd (determine_next_level ?s t)"] c
      by (simp add: Answered)
  next
    case (Skipped r pick q)
    show ?thesis
      using Cons.IH [of "snd (get_next_question_without_answer r pick q m)" t] Cons.prems
      by (simp add: Skipped skip_frame skip_streaks)
  qed
qed

lemma session_after_scores:
  "sd_technical_scores (session (session_after role cand opening turns)) = recorded_scores turns"
  by (simp add: session_after_def foldl_take_turn_scores get_opening_question_def Let_def
      new_manager_def new_session_data_def)

lemma session_after_level:
  "current_level (session_after role cand opening turns) =
     current_level (tracker_after role cand (recorded_scores turns))"
  unfolding session_after_def tracker_after_def
  by (rule foldl_take_turn_tracker) (simp_all add: get_opening_question_def Let_def new_manager_def)

lemma recorded_scores_range: "list_all (\<lambda>s. 0 \<le> s \<and> s \<le> 100) (recorded_scores turns)"
  by (induction turns rule: recorded_scores.induct) (simp_all add: evaluate_answer_quality_range)

subsection \<open>Final evaluation of the interview manager\<close>

lemma manager_level_weight_spec: "manager_level_weight level = spec_level_score level"
  by (simp add: manager_level_weight_def spec_level_score_def)

lemma manager_evaluation_fields:
  "fe_final_level (manager_calculate_final_evaluation ps m) = current_level m"
  "fe_level_score (manager_calculate_final_evaluation ps m) = spec_level_score (current_level m)"
  "fe_technical_score (manager_calculate_final_evaluation ps m) =
     py_round1 (technical_average (sd_technical_scores (session m)))"
  "fe_base_score (manager_calculate_final_evaluation ps m) =
     py_round1 (spec_base_score (current_level m) (sd_technical_scores (session m)))"
  "fe_overall_score (manager_calculate_final_evaluation ps m) =
     py_round1 (if stats_given ps
                then max 0 (fsub (spec_base_score (current_level m) (sd_technical_scores (session m)))
                              (float_of_int (fst (manager_calculate_proctoring_penalty (the ps)))))
                else spec_base_score (current_level m) (sd_technical_scores (session m)))"
  by (simp_all add: manager_calculate_final_evaluation_def Let_def manager_level_weight_spec
      spec_base_score_def technical_average_def)

lemma sum_list_range:
  "list_all (\<lambda>s. 0 \<le> s \<and> s \<le> 100) scores \<Longrightarrow>
     0 \<le> sum_list scores \<and> sum_list scores \<le> 100 * int (length scores)"
  by (induction scores) auto

lemma technical_average_range:
  assumes "list_all (\<lambda>s. 0 \<le> s \<and> s \<le> 100) scores"
  shows "0 \<le> technical_average scores \<and> technical_average scores \<le> 100"
proof (cases "scores = []")
  case True
  then show ?thesis by (simp add: technical_average_def)
next
  case False
  then have n: "0 < real (length scores)" by simp
  from sum_list_range [OF assms]
  have lo: "0 \<le> real_of_int (sum_list scores)"
    and hi: "real_of_int (sum_list scores) \<le> 100 * real (length scores)"
    by (simp_all add: of_int_le_iff [symmetric] del: of_int_le_iff)
  have "0 \<le> real_of_int (sum_list scores) / real (length scores)"
    using lo n by simp
  moreover have "real_of_int (sum_list scores) / real (length scores) \<le> 100"
    using hi n by (simp add: divide_le_eq)
  ultimately have "0 \<le> fl (real_of_int (sum_list scores) / real (length scores))
      \<and> fl (real_of_int (sum_list scores) / real (length scores)) \<le> 100"
    by (rule fl_range)
  then show ?thesis using False by (simp add: technical_average_def int_truediv_def)
qed

lemma float_of_int_nonneg: "0 \<le> n \<Longrightarrow> 0 \<le> float_of_int n"
  unfolding float_of_int_def by (rule fl_nonneg) simp

lemma float_of_level:
  "float_of_int (spec_level_score level) = real_of_int (spec_level_score level)"
proof -
  have "float_of_int 30 = 30" "float_of_int 70 = 70" "float_of_int 100 = 100"
    by code_simp+
  then show ?thesis by (simp add: spec_level_score_def)
qed

lemma spec_base_score_range:
  assumes "list_all (\<lambda>s. 0 \<le> s \<and> s \<le> 100) scores"
  shows "0 \<le> spec_base_score level scores \<and> spec_base_score level scores \<le> 100"
proof -
  define c6 where "c6 = fl 0.6"
  define c4 where "c4 = fl 0.4"
  define lv where "lv = real_of_int (spec_level_score level)"
  define avg where "avg = technical_average scores"
  have c6: "0 \<le> c6" unfolding c6_def by (rule fl_nonneg) simp
  have c4: "0 \<le> c4" unfolding c4_def by (rule fl_nonneg) simp
  have e60: "fl (100 * c6) = 60" unfolding c6_def by (rule fl_values)
  have e40: "fl (100 * c4) = 40" unfolding c4_def by (rule fl_values)
  have lvl: "0 \<le> lv" "lv \<le> 100"
    by (simp_all add: lv_def spec_level_score_def)
  have avg: "0 \<le> avg" "avg \<le> 100"
    using technical_average_range [OF assms] by (simp_all add: avg_def)
  have "lv * c6 \<le> 100 * c6" using lvl(2) c6 by (rule mult_right_mono)
  then have "fl (lv * c6) \<le> fl (100 * c6)" by (rule fl_mono)
  then have a2: "fl (lv * c6) \<le> 60" unfolding e60 .
  have a1: "0 \<le> fl (lv * c6)" using lvl(1) c6 by (intro fl_nonneg mult_nonneg_nonneg)
  have "avg * c4 \<le> 100 * c4" using avg(2) c4 by (rule mult_right_mono)
  then have "fl (avg * c4) \<le> fl (100 * c4)" by (rule fl_mono)
  then have b2: "fl (avg * c4) \<le> 40" unfolding e40 .
  have b1: "0 \<le> fl (avg * c4)" using avg(1) c4 by (intro fl_nonneg mult_nonneg_nonneg)
  have "0 \<le> fl (lv * c6) + fl (avg * c4)" "fl (lv * c6) + fl (avg * c4) \<le> 100"
    using a1 a2 b1 b2 by linarith+
  then have "0 \<le> fl (fl (lv * c6) + fl (avg * c4)) \<and> fl (fl (lv * c6) + fl (avg * c4)) \<le> 100"
    by (rule fl_range)
  then show ?thesis
    unfolding spec_base_score_def fadd_def fmul_def float_of_level c6_def c4_def lv_def avg_def .
qed

lemma penalised_score_range:
  assumes "0 \<le> base" "base \<le> 100" "0 \<le> p"
  shows "0 \<le> max 0 (fsub base (float_of_int p)) \<and> max 0 (fsub base (float_of_int p)) \<le> 100"
proof -
  have "0 \<le> float_of_int p" using assms(3) by (rule float_of_int_nonneg)
  then have "base - float_of_int p \<le> 100" using assms(2) by simp
  then have "fl (base - float_of_int p) \<le> fl 100" by (rule fl_mono)
  then have "fsub base (float_of_int p) \<le> 100" unfolding fsub_def fl_values(1) .
  then show ?thesis by simp
qed

lemma recorded_scores_replicate:
  "recorded_scores (replicate n (Answered sr qr pick q a)) = replicate n (evaluate_answer_quality sr a)"
  by (induction n) simp_all

lemma recorded_scores_append:
  "recorded_scores (turns @ others) = recorded_scores turns @ recorded_scores others"
  by (induction turns rule: recorded_scores.induct) simp_all

lemma score_replies:
  "evaluate_answer_quality (Inr ''75'') a = 75"
  "evaluate_answer_quality (Inr ''45'') a = 45"
  "evaluate_answer_quality (Inr ''42'') a = 42"
  by (simp_all add: evaluate_answer_quality_def strip_def is_space_def match_number_at_def
      word_boundary_def char_at_def is_word_char_def is_digit_def int_of_digits_def digit_value_def)

lemma tracker_after_nine: "current_level (tracker_after role cand (replicate 9 75)) = ''hard''"
proof -
  have r: "replicate 9 (75::int) = [75, 75, 75, 75, 75, 75, 75, 75, 75]"
    by (simp add: eval_nat_numeral)
  show ?thesis
    unfolding r
    by (simp add: tracker_after_def new_manager_def determine_next_level_def update_streaks_def
        change_level_def Let_def should_promote_level_def should_demote_level_def)
qed

lemma tracker_after_low: "current_level (tracker_after role cand (replicate 7 45 @ [42])) = ''easy''"
proof -
  have r: "replicate 7 (45::int) @ [42] = [45, 45, 45, 45, 45, 45, 45, 42]"
    by (simp add: eval_nat_numeral)
  show ?thesis
    unfolding r
    by (simp add: tracker_after_def new_manager_def determine_next_level_def update_streaks_def
        change_level_def Let_def should_promote_level_def should_demote_level_def)
qed

lemma scenario_values:
  "py_round1 (technical_average (replicate 9 75)) = 75"
  "py_round1 (spec_base_score ''hard'' (replicate 9 75)) = 90"
  "py_round1 (max 0 (fsub (spec_base_score ''hard'' (replicate 9 75)) (float_of_int 0))) = 90"
  "py_round1 (spec_base_score ''easy'' (replicate 7 45 @ [42])) = fl 35.9"
  "py_round1 (max 0 (fsub (spec_base_score ''easy'' (replicate 7 45 @ [42])) (float_of_int 4))) = fl 31.9"
  by code_simp+

lemma all_75_scenario:
  "(let ev = manager_calculate_final_evaluation
               (Some [(''tab_switch_count'', 0), (''multiple_faces'', 0), (''face_coverings'', 0),
                      (''eye_coverings'', 0), (''no_face_count'', 0), (''total_alerts'', 0)])
               (session_after role cand opening (replicate 9 (Answered (Inr ''75'') qr pick q a)))
    in fe_final_level ev = ''hard'' \<and> fe_level_score ev = 100 \<and> fe_technical_score ev = 75
     \<and> fe_base_score ev = 90 \<and> fe_overall_score ev = 90)"
proof -
  have pen: "fst (manager_calculate_proctoring_penalty
       [(''tab_switch_count'', 0), (''multiple_faces'', 0), (''face_coverings'', 0),
        (''eye_coverings'', 0), (''no_face_count'', 0), (''total_alerts'', 0)]) = 0"
    by (simp add: manager_penalty_fst stat_get_def)
  show ?thesis
    unfolding Let_def manager_evaluation_fields session_after_scores session_after_level
      recorded_scores_replicate score_replies tracker_after_nine
    by (simp add: stats_given_def pen scenario_values spec_level_score_def)
qed

lemma tie_scenario:
  "(let ev = manager_calculate_final_evaluation (Some [(''tab_switch_count'', 2)])
               (session_after role cand opening
                  (replicate 7 (Answered (Inr ''45'') qr pick q a) @ [Answered (Inr ''42'') qr pick q a]))
    in fe_final_level ev = ''easy'' \<and> fe_base_score ev = fl 35.9 \<and> fe_overall_score ev = fl 31.9)"
proof -
  have pen: "fst (manager_calculate_proctoring_penalty [(''tab_switch_count'', 2)]) = 4"
    by (simp add: manager_penalty_fst stat_get_def)
  have rec: "recorded_scores
      (replicate 7 (Answered (Inr ''45'') qr pick q a) @ [Answered (Inr ''42'') qr pick q a])
      = replicate 7 45 @ [42]"
    by (simp add: recorded_scores_append recorded_scores_replicate score_replies)
  show ?thesis
    unfolding Let_def manager_evaluation_fields session_after_scores session_after_level
      rec tracker_after_low
    by (simp add: stats_given_def pen scenario_values)
qed

text \<open>
  Claim C5. In every state a session reaches and for every proctoring argument,
  \<^verbatim>\<open>calculate_final_evaluation\<close> reports the level score of the table (easy 30, medium
  70, hard 100), the mean of the recorded technical scores (50 when there is none), the
  base score \<open>level_score * 0.6 + technical_score * 0.4\<close>, and as overall score
  \<open>max 0 (base - penalty)\<close> when the statistics are given (neither \<^verbatim>\<open>None\<close> nor
  empty) and the base score otherwise, all in the floating-point arithmetic of the
  program; the technical, base and overall scores are rounded to one decimal place: the
  double nearest to a tenth that is at most 0.05 from the value rounded. Nine answers all
  scored 75, with all proctoring counts zero, end at level hard with technical score 75,
  level score 100, base score 90 and overall score 90. Seven answers scored 45 and one
  scored 42 end at level easy with base score 35.9, and 31.9 overall after two tab
  switches.
\<close>

theorem manager_final_evaluation_formula:
  "(let m = session_after role cand opening turns;
        ev = manager_calculate_final_evaluation ps m;
        level_score = spec_level_score (current_level m);
        scores = sd_technical_scores (session m);
        avg = (if scores = [] then 50 else int_truediv (sum_list scores) (int (length scores)));
        base = fadd (fmul (float_of_int level_score) (fl 0.6)) (fmul avg (fl 0.4));
        overall = (if stats_given ps
                   then max 0 (fsub base
                                 (float_of_int (fst (manager_calculate_proctoring_penalty (the ps)))))
                   else base)
    in fe_level_score ev = level_score
     \<and> fe_technical_score ev = py_round1 avg
     \<and> fe_base_score ev = py_round1 base
     \<and> fe_overall_score ev = py_round1 overall
     \<and> (\<exists>k. fe_overall_score ev = fl (real_of_int k / 10)
             \<and> \<bar>real_of_int k / 10 - overall\<bar> \<le> 1 / 20))
   \<and> spec_level_score ''easy'' = 30 \<and> spec_level_score ''medium'' = 70
   \<and> spec_level_score ''hard'' = 100
   \<and> (let ev = manager_calculate_final_evaluation
               (Some [(''tab_switch_count'', 0), (''multiple_faces'', 0), (''face_coverings'', 0),
                      (''eye_coverings'', 0), (''no_face_count'', 0), (''total_alerts'', 0)])
               (session_after role cand opening (replicate 9 (Answered (Inr ''75'') qr pick q a)))
       in fe_final_level ev = ''hard'' \<and> fe_level_score ev = 100 \<and> fe_technical_score ev = 75
        \<and> fe_base_score ev = 90 \<and> fe_overall_score ev = 90)
   \<and> (let ev = manager_calculate_final_evaluation (Some [(''tab_switch_count'', 2)])
               (session_after role cand opening
                  (replicate 7 (Answered (Inr ''45'') qr pick q a)
                   @ [Answered (Inr ''42'') qr pick q a]))
       in fe_final_level ev = ''easy'' \<and> fe_base_score ev = fl 35.9
        \<and> fe_overall_score ev = fl 31.9)"
proof -
  have fields: "(let m = session_after role cand opening turns;
        ev = manager_calculate_final_evaluation ps m;
        level_score = spec_level_score (current_level m);
        scores = sd_technical_scores (session m);
        avg = (if scores = [] then 50 else int_truediv (sum_list scores) (int (length scores)));
        base = fadd (fmul (float_of_int level_score) (fl 0.6)) (fmul avg (fl 0.4));
        overall = (if stats_given ps
                   then max 0 (fsub base
                                 (float_of_int (fst (manager_calculate_proctoring_penalty (the ps)))))
                   else base)
    in fe_level_score ev = level_score
     \<and> fe_technical_score ev = py_round1 avg
     \<and> fe_base_score ev = py_round1 base
     \<and> fe_overall_score ev = py_round1 overall
     \<and> (\<exists>k. fe_overall_score ev = fl (real_of_int k / 10)
             \<and> \<bar>real_of_int k / 10 - overall\<bar> \<le> 1 / 20))"
    unfolding Let_def manager_evaluation_fields spec_base_score_def technical_average_def
    using py_round1_tenth by simp
  have table: "spec_level_score ''easy'' = 30 \<and> spec_level_score ''medium'' = 70
     \<and> spec_level_score ''hard'' = 100"
    by (simp add: spec_level_score_def)
  from fields table all_75_scenario tie_scenario show ?thesis
    by blast
qed

text \<open>
  Claim C6. In every state a session reaches (an opening question followed by answered and
  skipped turns, whatever the collaborator replies) and for every proctoring argument, the
  reported overall score lies between 0 and 100: every recorded technical score lies
  between 0 and 100, the level score is 30, 70 or 100, so the base score lies between 0 and
  100, and the penalty is never negative.
\<close>

theorem overall_score_bounded:
  "(let m = session_after role cand opening turns;
        ev = manager_calculate_final_evaluation ps m
    in 0 \<le> fe_overall_score ev \<and> fe_overall_score ev \<le> 100
     \<and> list_all (\<lambda>s. 0 \<le> s \<and> s \<le> 100) (sd_technical_scores (session m))
     \<and> (fe_level_score ev = 30 \<or> fe_level_score ev = 70 \<or> fe_level_score ev = 100)
     \<and> 0 \<le> fe_base_score ev \<and> fe_base_score ev \<le> 100
     \<and> 0 \<le> fst (manager_calculate_proctoring_penalty d))"
proof -
  let ?m = "session_after role cand opening turns"
  let ?scores = "sd_technical_scores (session ?m)"
  let ?base = "spec_base_score (current_level ?m) ?scores"
  let ?p = "fst (manager_calculate_proctoring_penalty (the ps))"
  have scores: "list_all (\<lambda>s. 0 \<le> s \<and> s \<le> 100) ?scores"
    unfolding session_after_scores by (rule recorded_scores_range)
  have base: "0 \<le> ?base \<and> ?base \<le> 100"
    using scores by (rule spec_base_score_range)
  have known: "known_level (current_level ?m)"
    unfolding session_after_level by (rule tracker_after_known)
  have level: "spec_level_score (current_level ?m) = 30 \<or> spec_level_score (current_level ?m) = 70
      \<or> spec_level_score (current_level ?m) = 100"
    using known by (auto simp: known_level_def spec_level_score_def)
  have pen: "0 \<le> ?p"
    using manager_penalty_range [of "the ps"] by simp
  have penalised: "0 \<le> max 0 (fsub ?base (float_of_int ?p))
      \<and> max 0 (fsub ?base (float_of_int ?p)) \<le> 100"
    using base pen by (intro penalised_score_range) simp_all
  have final: "0 \<le> (if stats_given ps then max 0 (fsub ?base (float_of_int ?p)) else ?base)
     \<and> (if stats_given ps then max 0 (fsub ?base (float_of_int ?p)) else ?base) \<le> 100"
    using base penalised by simp
  have overall: "0 \<le> fe_overall_score (manager_calculate_final_evaluation ps ?m)
     \<and> fe_overall_score (manager_calculate_final_evaluation ps ?m) \<le> 100"
    unfolding manager_evaluation_fields using final by (intro py_round1_range) simp_all
  have b: "0 \<le> fe_base_score (manager_calculate_final_evaluation ps ?m)
     \<and> fe_base_score (manager_calculate_final_evaluation ps ?m) \<le> 100"
    unfolding manager_evaluation_fields using base by (intro py_round1_range) simp_all
  show ?thesis
    unfolding Let_def
    using overall scores level b manager_penalty_range [of d]
    by (simp add: manager_evaluation_fields)
qed

subsection \<open>The scoring service\<close>

lemma service_level_weight_values: "service_level_weight level = spec_service_weight level"
  by (simp add: service_level_weight_def spec_service_weight_def)

lemma service_evaluation_fields:
  assumes "sv_questions s \<noteq> []"
  shows "se_overall_score (fst (service_calculate_final_evaluation final_level ps s)) =
      py_round1 (if stats_given ps
                 then max 0 (fsub (spec_service_base final_level (calculate_current_average s))
                               (float_of_int (fst (service_calculate_proctoring_penalty (the ps)))))
                 else spec_service_base final_level (calculate_current_average s))"
    and "se_technical_avg (fst (service_calculate_final_evaluation final_level ps s)) =
      py_round1 (calculate_current_average s)"
    and "map_option pd_base_score (se_penalty_details (fst (service_calculate_final_evaluation final_level ps s))) =
      Some (py_round1 (spec_service_base final_level (calculate_current_average s)))"
    and "se_final_level (fst (service_calculate_final_evaluation final_level ps s)) = final_level"
  using assms
  by (simp_all add: service_calculate_final_evaluation_def Let_def service_level_weight_values
      spec_service_base_def)

lemma blend_values:
  "py_round1 (spec_service_base ''hard'' (int_truediv 75 1)) = 82.5"
  "py_round1 (spec_base_score ''hard'' [75]) = 90"
  "py_round1 (spec_service_base ''easy'' (int_truediv 121 2)) = fl 51.3"
  "py_round1 (spec_base_score ''easy'' []) = 38"
  "py_round1 (spec_base_score ''medium'' []) = 62"
  "py_round1 (spec_base_score ''hard'' []) = 80"
  by code_simp+

lemma service_example:
  "se_overall_score (fst (service_calculate_final_evaluation ''hard'' None
      (snd (add_question_score q a 75 ''hard'' an initialize_scoring)))) = 82.5"
proof -
  let ?s = "snd (add_question_score q a 75 ''hard'' an initialize_scoring)"
  have ne: "sv_questions ?s \<noteq> []"
    by (simp add: add_question_score_def Let_def)
  have avg: "calculate_current_average ?s = int_truediv 75 1"
    by (simp add: add_question_score_def Let_def initialize_scoring_def calculate_current_average_def)
  show ?thesis
    unfolding service_evaluation_fields [OF ne] avg
    by (simp add: stats_given_def blend_values)
qed

lemma service_tie_example:
  "se_overall_score (fst (service_calculate_final_evaluation ''easy'' None
      (snd (add_question_score q2 a2 61 ''easy'' an2
         (snd (add_question_score q1 a1 60 ''easy'' an1 initialize_scoring)))))) = fl 51.3"
proof -
  let ?s = "snd (add_question_score q2 a2 61 ''easy'' an2
         (snd (add_question_score q1 a1 60 ''easy'' an1 initialize_scoring)))"
  have ne: "sv_questions ?s \<noteq> []"
    by (simp add: add_question_score_def Let_def)
  have avg: "calculate_current_average ?s = int_truediv 121 2"
    by (simp add: add_question_score_def Let_def initialize_scoring_def calculate_current_average_def)
  show ?thesis
    unfolding service_evaluation_fields [OF ne] avg
    by (simp only: stats_given_def option.case if_False blend_values)
qed

lemma manager_example:
  "fe_overall_score (manager_calculate_final_evaluation None
      (m \<lparr> current_level := ''hard'', session := (session m) \<lparr> sd_technical_scores := [75] \<rparr> \<rparr>)) = 90"
  by (simp add: manager_evaluation_fields stats_given_def blend_values)

text \<open>
  Claim C8. For a ledger with at least one question and scores between 0 and 100, the
  scoring service reports as overall score \<open>technical_avg * 0.7 + level_weight * 100 * 0.3\<close>
  in the floating-point arithmetic of the program, with the weights 0.3, 0.6 and 1.0 for
  easy, medium and hard and 0.3 for any other final level, reduced by the penalty and
  floored at 0 when proctoring statistics are given, and rounded to one decimal place. The
  blend differs from the interview manager's: at level hard with the single score 75 the
  service reports 82.5 and the manager 90. With the scores 60 and 61 at easy the service
  reports 51.3.
\<close>

theorem service_final_evaluation_formula:
  assumes "sv_questions s \<noteq> []"
    and "list_all (\<lambda>x. 0 \<le> x \<and> x \<le> 100) (sv_technical s)"
  shows "(let ev = fst (service_calculate_final_evaluation final_level ps s);
        weight = (if final_level = ''easy'' then fl 0.3 else if final_level = ''medium'' then fl 0.6
                  else if final_level = ''hard'' then fl 1.0 else fl 0.3);
        avg = (if sv_technical s = [] then 0
               else int_truediv (sum_list (sv_technical s)) (int (length (sv_technical s))));
        base = fadd (fmul avg (fl 0.7)) (fmul (fmul weight (float_of_int 100)) (fl 0.3));
        overall = (if stats_given ps
                   then max 0 (fsub base
                                 (float_of_int (fst (service_calculate_proctoring_penalty (the ps)))))
                   else base)
    in se_overall_score ev = py_round1 overall
     \<and> se_technical_avg ev = py_round1 avg
     \<and> map_option pd_base_score (se_penalty_details ev) = Some (py_round1 base)
     \<and> se_final_level ev = final_level
     \<and> (\<exists>k. se_overall_score ev = fl (real_of_int k / 10)
             \<and> \<bar>real_of_int k / 10 - overall\<bar> \<le> 1 / 20))
   \<and> se_overall_score (fst (service_calculate_final_evaluation ''hard'' None
         (snd (add_question_score question answer 75 ''hard'' analysis initialize_scoring)))) = 82.5
   \<and> fe_overall_score (manager_calculate_final_evaluation None
         (m \<lparr> current_level := ''hard'',
              session := (session m) \<lparr> sd_technical_scores := [75] \<rparr> \<rparr>)) = 90
   \<and> se_overall_score (fst (service_calculate_final_evaluation ''easy'' None
         (snd (add_question_score question2 answer2 61 ''easy'' analysis2
            (snd (add_question_score question answer 60 ''easy'' analysis initialize_scoring))))))
       = fl 51.3"
proof -
  have fields: "(let ev = fst (service_calculate_final_evaluation final_level ps s);
        weight = (if final_level = ''easy'' then fl 0.3 else if final_level = ''medium'' then fl 0.6
                  else if final_level = ''hard'' then fl 1.0 else fl 0.3);
        avg = (if sv_technical s = [] then 0
               else int_truediv (sum_list (sv_technical s)) (int (length (sv_technical s))));
        base = fadd (fmul avg (fl 0.7)) (fmul (fmul weight (float_of_int 100)) (fl 0.3));
        overall = (if stats_given ps
                   then max 0 (fsub base
                                 (float_of_int (fst (service_calculate_proctoring_penalty (the ps)))))
                   else base)
    in se_overall_score ev = py_round1 overall
     \<and> se_technical_avg ev = py_round1 avg
     \<and> map_option pd_base_score (se_penalty_details ev) = Some (py_round1 base)
     \<and> se_final_level ev = final_level
     \<and> (\<exists>k. se_overall_score ev = fl (real_of_int k / 10)
             \<and> \<bar>real_of_int k / 10 - overall\<bar> \<le> 1 / 20))"
    unfolding Let_def service_evaluation_fields [OF assms(1)] spec_service_base_def
      spec_service_weight_def calculate_current_average_def
    using py_round1_tenth by simp
  from fields service_example manager_example service_tie_example show ?thesis by blast
qed

theorem service_final_evaluation_formula_witness:
  "sv_questions (snd (add_question_score ''q2'' ''a2'' 61 ''easy'' ''''
       (snd (add_question_score ''q1'' ''a1'' 60 ''easy'' '''' initialize_scoring)))) \<noteq> []
   \<and> list_all (\<lambda>x. 0 \<le> x \<and> x \<le> 100)
       (sv_technical (snd (add_question_score ''q2'' ''a2'' 61 ''easy'' ''''
          (snd (add_question_score ''q1'' ''a1'' 60 ''easy'' '''' initialize_scoring)))))
   \<and> se_technical_avg (fst (service_calculate_final_evaluation ''easy'' None
         (snd (add_question_score ''q2'' ''a2'' 61 ''easy'' ''''
            (snd (add_question_score ''q1'' ''a1'' 60 ''easy'' '''' initialize_scoring))))))
       = py_round1 (int_truediv 121 2)"
proof -
  let ?s = "snd (add_question_score ''q2'' ''a2'' 61 ''easy'' ''''
       (snd (add_question_score ''q1'' ''a1'' 60 ''easy'' '''' initialize_scoring)))"
  have h1: "sv_questions ?s \<noteq> []"
    by (simp add: add_question_score_def Let_def)
  have tech: "sv_technical ?s = [60, 61]"
    by (simp add: add_question_score_def Let_def initialize_scoring_def)
  have h2: "list_all (\<lambda>x. 0 \<le> x \<and> x \<le> 100) (sv_technical ?s)"
    unfolding tech by simp
  from service_final_evaluation_formula [OF h1 h2, of "''easy''" None]
  have "se_technical_avg (fst (service_calculate_final_evaluation ''easy'' None ?s)) =
      py_round1 (if sv_technical ?s = [] then 0
                 else int_truediv (sum_list (sv_technical ?s)) (int (length (sv_technical ?s))))"
    unfolding Let_def by blast
  then have "se_technical_avg (fst (service_calculate_final_evaluation ''easy'' None ?s)) =
      py_round1 (int_truediv 121 2)"
    unfolding tech by simp
  with h1 h2 show ?thesis by blast
qed

text \<open>
  Claim C10. With an empty question ledger the scoring service returns overall score 0 and
  technical average 0 with empty penalty details, whatever the final level and the
  proctoring statistics, and records no penalty: the service is left as it was. The
  interview manager with no recorded score takes 50 as technical score and reports a
  base score of 38, 62 or 80 at easy, medium or hard.
\<close>

theorem service_empty_ledger:
  "(let s = s0 \<lparr> sv_questions := [] \<rparr>;
        r = service_calculate_final_evaluation final_level ps s
    in fst r = \<lparr> se_overall_score = 0, se_technical_avg = 0, se_final_level = final_level,
                 se_total_questions = 0, se_penalty_details = None,
                 se_level_progression = None, se_question_breakdown = None,
                 se_strengths = None, se_areas_for_improvement = None \<rparr>
     \<and> snd r = s)
   \<and> (let m0 = m \<lparr> session := (session m) \<lparr> sd_technical_scores := [] \<rparr> \<rparr>;
           ev = manager_calculate_final_evaluation ps' m0
       in fe_technical_score ev = 50
        \<and> fe_base_score ev =
            (if current_level m = ''medium'' then 62 else if current_level m = ''hard'' then 80 else 38))"
proof -
  have service: "(let s = s0 \<lparr> sv_questions := [] \<rparr>;
        r = service_calculate_final_evaluation final_level ps s
    in fst r = \<lparr> se_overall_score = 0, se_technical_avg = 0, se_final_level = final_level,
                 se_total_questions = 0, se_penalty_details = None,
                 se_level_progression = None, se_question_breakdown = None,
                 se_strengths = None, se_areas_for_improvement = None \<rparr>
     \<and> snd r = s)"
    by (simp add: service_calculate_final_evaluation_def Let_def)
  have base: "spec_base_score (current_level m) [] =
      (if current_level m = ''medium'' then spec_base_score ''medium'' []
       else if current_level m = ''hard'' then spec_base_score ''hard'' []
       else spec_base_score ''easy'' [])"
    by (simp add: spec_base_score_def spec_level_score_def)
  have tech: "py_round1 (technical_average []) = 50"
    by (simp add: technical_average_def py_round1_values)
  have manager: "(let m0 = m \<lparr> session := (session m) \<lparr> sd_technical_scores := [] \<rparr> \<rparr>;
           ev = manager_calculate_final_evaluation ps' m0
       in fe_technical_score ev = 50
        \<and> fe_base_score ev =
            (if current_level m = ''medium'' then 62 else if current_level m = ''hard'' then 80 else 38))"
    unfolding Let_def manager_evaluation_fields
    by (simp add: base tech blend_values)
  from service manager show ?thesis by blast
qed

subsection \<open>Text generation and the next question\<close>

lemma generate_text_3:
  "generate_text model 3 = generate_text_loop model 3 [0, 1, 2]"
proof -
  have "[0..<nat 3] = [0, 1, 2]" by (simp add: upt_rec)
  then show ?thesis by (simp only: generate_text_def)
qed

lemma generate_text_all_raise:
  "generate_text (\<lambda>n. Raises (e n)) 3 = (Some continue_text, 3, 4)"
  by (simp add: generate_text_3)

lemma generate_text_default:
  "(case generate_text model 3 of
      (r, calls, slept) \<Rightarrow>
        (r = Some continue_text \<or> (\<exists>n<3. \<exists>t. model n = Text t \<and> t \<noteq> [] \<and> r = Some (strip t)))
        \<and> 1 \<le> calls \<and> calls \<le> 3 \<and> slept = 2 * (calls - 1))"
proof -
  have three: "\<And>P. P (0::nat) \<or> P 1 \<or> P 2 \<Longrightarrow> \<exists>n<3. P n"
    by (metis less_numeral_extra(1) numeral_3_eq_3 one_less_numeral_iff semiring_norm(77)
        zero_less_numeral lessI less_SucI numeral_2_eq_2)
  show ?thesis
    unfolding generate_text_3
    by (cases "model 0"; cases "model 1"; cases "model 2")
       (auto intro!: three)
qed

lemma llm_reply_all_raise: "llm_reply (\<lambda>n. Raises (e n)) = Inr continue_text"
  by (simp add: llm_reply_def ask_def generate_text_all_raise)

lemma llm_reply_text: "\<exists>s. llm_reply model = Inr s"
  using generate_text_default [of model]
  by (auto simp: llm_reply_def ask_def split: prod.splits)

lemma parse_continue_text:
  "parse_analysis_response continue_text fb = Some (''Answer received. Continuing interview.'', fb)"
  by (simp add: parse_analysis_response_def continue_text_def sublist_code prefix_code
      split_on_def newline_def strip_def is_space_def Let_def)

lemma clean_continue_text: "clean_question continue_text = continue_text"
  by (simp add: clean_question_def continue_text_def sublist_code prefix_code
      strip_def is_space_def Let_def)


lemma fallback_questions_length: "length (fallback_questions role level) = 3"
  by (simp add: fallback_questions_def Let_def)

lemma generate_fallback_question_in_pool:
  "generate_fallback_question pick m \<in> set (fallback_questions (job_role m) (current_level m))"
  unfolding generate_fallback_question_def Let_def
  by (rule nth_mem) (simp add: fallback_questions_length)

lemma continue_text_not_in_pool: "continue_text \<notin> set (fallback_questions role level)"
  by (simp add: fallback_questions_def Let_def continue_text_def)

lemma answered_turn_generation_failure:
  "snd (fst (analyze_answer_and_generate_question (Inr continue_text) pick question answer m))
     \<in> set (fallback_questions (job_role m) (current_level m))"
proof -
  let ?m1 = "m \<lparr> conversation_context := conversation_context m @ [''Candidate: '' @ answer],
                  last_answer := answer, last_question := question \<rparr>"
  have "snd (fst (analyze_answer_and_generate_question (Inr continue_text) pick question answer m))
      = generate_fallback_question pick ?m1"
    by (simp add: analyze_answer_and_generate_question_def Let_def parse_continue_text)
  moreover have "generate_fallback_question pick ?m1
      \<in> set (fallback_questions (job_role ?m1) (current_level ?m1))"
    by (rule generate_fallback_question_in_pool)
  ultimately show ?thesis by simp
qed

lemma skipped_turn_continue_text:
  "fst (get_next_question_without_answer (Inr continue_text) pick question m) = continue_text"
  by (simp add: get_next_question_without_answer_def Let_def clean_continue_text)
    (simp add: continue_text_def)

text \<open>
  Claim C9. With the default of three retries \<^verbatim>\<open>generate_text\<close> calls the model at
  least once and at most three times, sleeps two seconds after each failed call but the
  last, and returns a text: the stripped text of the first call that does not raise, or
  \<open>Please continue with your answer.\<close> when that call yields no text or all three calls
  raise; \<^verbatim>\<open>ask\<close> therefore hands its callers a text and never an exception. When
  all three calls raise, an answered turn gets a question of the fallback pool of its
  level, but a skipped turn gets the text \<open>Please continue with your answer.\<close> itself as
  its next question, which belongs to no fallback pool.
\<close>

theorem generation_failure_next_question:
  "(case generate_text model 3 of
      (r, calls, slept) \<Rightarrow>
        (r = Some continue_text \<or> (\<exists>n<3. \<exists>t. model n = Text t \<and> t \<noteq> [] \<and> r = Some (strip t)))
        \<and> 1 \<le> calls \<and> calls \<le> 3 \<and> slept = 2 * (calls - 1))
   \<and> (\<exists>s. llm_reply model = Inr s)
   \<and> generate_text (\<lambda>n. Raises (e n)) 3 = (Some ''Please continue with your answer.'', 3, 4)
   \<and> llm_reply (\<lambda>n. Raises (e n)) = Inr ''Please continue with your answer.''
   \<and> snd (fst (analyze_answer_and_generate_question (llm_reply (\<lambda>n. Raises (e n)))
               pick question answer m))
       \<in> set (fallback_questions (job_role m) (current_level m))
   \<and> fst (get_next_question_without_answer (llm_reply (\<lambda>n. Raises (e n))) pick question m)
       = ''Please continue with your answer.''
   \<and> ''Please continue with your answer.'' \<notin> set (fallback_questions (job_role m) (current_level m))"
  using generate_text_default [of model] llm_reply_text [of model]
    generate_text_all_raise [of e] llm_reply_all_raise [of e]
    answered_turn_generation_failure [of pick question answer m]
    skipped_turn_continue_text [of pick question m]
    continue_text_not_in_pool [of "job_role m" "current_level m"]
  by (simp add: continue_text_def)

subsection \<open>Answer scoring\<close>

lemma digit_is_word: "is_digit c \<Longrightarrow> is_word_char c"
  by (auto simp: is_digit_def is_word_char_def)

lemma word_boundary_iff: "word_boundary prev nxt = (word_before prev \<noteq> word_before nxt)"
  by (simp add: word_boundary_def word_before_def)

lemma match_no_boundary:
  "word_before prev = is_word_char c \<Longrightarrow> match_number_at prev (c # cs) = None"
  by (simp add: match_number_at_def word_boundary_iff char_at_def word_before_def)

lemma match_not_digit:
  "\<not> is_digit c \<Longrightarrow> match_number_at prev (c # cs) = None"
  by (simp add: match_number_at_def find_None_iff)

lemma run_condition:
  fixes s :: string
  assumes w: "is_word_char (hd s)" "s \<noteq> []" and k: "1 \<le> k"
  defines "run \<equiv> takeWhile is_word_char s"
  shows "(k \<le> length s \<and> list_all is_digit (take k s) \<and>
          word_boundary (char_at s (k - 1)) (char_at s k))
         = (k = length run \<and> list_all is_digit run)"
proof
  assume c: "k \<le> length s \<and> list_all is_digit (take k s) \<and>
          word_boundary (char_at s (k - 1)) (char_at s k)"
  then have kl: "k \<le> length s" and dig: "list_all is_digit (take k s)"
    and b: "word_boundary (char_at s (k - 1)) (char_at s k)" by auto
  have words: "\<And>i. i < k \<Longrightarrow> is_word_char (s ! i)"
    using dig kl by (auto simp: list_all_length intro: digit_is_word)
  have le: "k \<le> length run"
  proof (rule ccontr)
    assume "\<not> k \<le> length run"
    then have lt: "length run < k" by simp
    then have "length (takeWhile is_word_char s) < length s" using kl by (simp add: run_def)
    then have "\<not> is_word_char (s ! length (takeWhile is_word_char s))"
      by (rule nth_length_takeWhile)
    with words [of "length run"] lt show False by (simp add: run_def)
  qed
  have prev: "word_before (char_at s (k - 1))"
    using words [of "k - 1"] k kl by (simp add: char_at_def word_before_def)
  have nxt: "\<not> word_before (char_at s k)"
    using b prev by (simp add: word_boundary_iff)
  have "\<not> k < length run"
  proof
    assume lt: "k < length run"
    then have "run ! k \<in> set run" by simp
    then have "is_word_char (run ! k)" unfolding run_def by (rule set_takeWhileD [THEN conjunct2])
    moreover have "run ! k = s ! k" using lt unfolding run_def by (rule takeWhile_nth)
    moreover have "k < length s" using lt length_takeWhile_le [of is_word_char s] by (simp add: run_def)
    ultimately show False using nxt by (simp add: char_at_def word_before_def)
  qed
  with le have eq: "k = length run" by simp
  have "take k s = run" unfolding eq run_def by (rule takeWhile_eq_take [symmetric])
  with dig eq show "k = length run \<and> list_all is_digit run" by simp
next
  assume c: "k = length run \<and> list_all is_digit run"
  then have eq: "k = length run" and dig: "list_all is_digit run" by auto
  have kl: "k \<le> length s" unfolding eq run_def by (rule length_takeWhile_le)
  have tk: "take k s = run" unfolding eq run_def by (rule takeWhile_eq_take [symmetric])
  have "s ! (k - 1) = run ! (k - 1)"
    using k eq takeWhile_nth [of "k - 1" is_word_char s] by (simp add: run_def)
  moreover have "run ! (k - 1) \<in> set run" using k eq by simp
  then have "is_word_char (run ! (k - 1))" unfolding run_def by (rule set_takeWhileD [THEN conjunct2])
  ultimately have prev: "word_before (char_at s (k - 1))"
    using k kl by (simp add: char_at_def word_before_def)
  have nxt: "\<not> word_before (char_at s k)"
  proof (cases "k < length s")
    case True
    then have "length (takeWhile is_word_char s) < length s" by (simp add: eq run_def)
    then have "\<not> is_word_char (s ! length (takeWhile is_word_char s))"
      by (rule nth_length_takeWhile)
    then show ?thesis using True by (simp add: char_at_def word_before_def eq run_def)
  next
    case False
    then show ?thesis by (simp add: char_at_def word_before_def)
  qed
  show "k \<le> length s \<and> list_all is_digit (take k s) \<and>
          word_boundary (char_at s (k - 1)) (char_at s k)"
    using kl tk dig prev nxt by (simp add: word_boundary_iff)
qed


lemma match_run:
  fixes cs :: string
  assumes "\<not> word_before prev" "is_word_char c"
  shows "match_number_at prev (c # cs) =
           (if length (takeWhile is_word_char (c # cs)) \<le> 3
               \<and> list_all is_digit (takeWhile is_word_char (c # cs))
            then Some (length (takeWhile is_word_char (c # cs))) else None)"
proof -
  define run where "run = takeWhile is_word_char (c # cs)"
  have start: "word_boundary prev (char_at (c # cs) 0)"
    using assms(1,2) by (simp add: word_boundary_iff char_at_def word_before_def)
  have pos: "1 \<le> length run" using assms(2) by (simp add: run_def)
  have cond: "\<And>k. 1 \<le> k \<Longrightarrow>
      (k \<le> length (c # cs) \<and> list_all is_digit (take k (c # cs)) \<and>
         word_boundary (char_at (c # cs) (k - 1)) (char_at (c # cs) k))
      = (k = length run \<and> list_all is_digit run)"
    unfolding run_def using assms(2) by (intro run_condition) simp_all
  have "find (\<lambda>k. k \<le> length (c # cs) \<and> list_all is_digit (take k (c # cs)) \<and>
         word_boundary (char_at (c # cs) (k - 1)) (char_at (c # cs) k)) [3, 2, 1]
      = find (\<lambda>k. k = length run \<and> list_all is_digit run) [3, 2, 1]"
  proof (rule find_cong [OF refl])
    fix k :: nat
    assume "k \<in> set [3, 2, 1]"
    then have "1 \<le> k" by auto
    then show "(k \<le> length (c # cs) \<and> list_all is_digit (take k (c # cs)) \<and>
         word_boundary (char_at (c # cs) (k - 1)) (char_at (c # cs) k))
      = (k = length run \<and> list_all is_digit run)"
      by (rule cond)
  qed
  then have "match_number_at prev (c # cs) =
      find (\<lambda>k. k = length run \<and> list_all is_digit run) [3, 2, 1]"
    unfolding match_number_at_def using start by (simp only: if_True)
  also have "\<dots> = (if length run \<le> 3 \<and> list_all is_digit run then Some (length run) else None)"
    using pos by auto
  finally show ?thesis unfolding run_def .
qed

lemma word_runs_skip: "\<not> is_word_char c \<Longrightarrow> number_tokens (c # cs) = number_tokens cs"
  by (simp add: number_tokens_def)

lemma word_runs_run:
  "is_word_char c \<Longrightarrow> number_tokens (c # cs) =
     (if length (takeWhile is_word_char (c # cs)) \<le> 3 \<and> list_all is_digit (takeWhile is_word_char (c # cs))
      then [takeWhile is_word_char (c # cs)] else []) @ number_tokens (dropWhile is_word_char cs)"
  by (simp add: number_tokens_def)

lemma findall_number_tokens:
  "findall_number prev s =
     (if word_before prev then number_tokens (dropWhile is_word_char s) else number_tokens s)"
proof (induction prev s rule: findall_number.induct)
  case (1 prev)
  show ?case by (simp add: number_tokens_def)
next
  case (2 prev c cs)
  let ?s = "c # cs"
  let ?run = "takeWhile is_word_char ?s"
  show ?case
  proof (cases "is_word_char c")
    case False
    then have none: "match_number_at prev ?s = None"
      by (intro match_not_digit) (auto dest: digit_is_word)
    have "findall_number prev ?s = findall_number (Some c) cs" using none by simp
    also have "\<dots> = number_tokens cs" using 2(1) [OF none] False by (simp add: word_before_def)
    finally show ?thesis using False by (simp add: word_runs_skip)
  next
    case True
    show ?thesis
    proof (cases "word_before prev")
      case wb: True
      then have none: "match_number_at prev ?s = None"
        using True by (intro match_no_boundary) simp
      have "findall_number prev ?s = findall_number (Some c) cs" using none by simp
      also have "\<dots> = number_tokens (dropWhile is_word_char cs)"
        using 2(1) [OF none] True by (simp add: word_before_def)
      finally show ?thesis using True wb by simp
    next
      case nb: False
      have m: "match_number_at prev ?s =
          (if length ?run \<le> 3 \<and> list_all is_digit ?run then Some (length ?run) else None)"
        using nb True by (rule match_run)
      show ?thesis
      proof (cases "length ?run \<le> 3 \<and> list_all is_digit ?run")
        case q: True
        let ?k = "length ?run"
        have some: "match_number_at prev ?s = Some ?k" using m q by simp
        have tk: "take ?k ?s = ?run" by (rule takeWhile_eq_take [symmetric])
        have dr: "drop ?k ?s = dropWhile is_word_char cs"
          using dropWhile_eq_drop [of is_word_char ?s] True by simp
        have pos: "0 < ?k" using True by simp
        then have "?k - 1 < ?k" by simp
        then have "?run ! (?k - 1) \<in> set ?run" by (rule nth_mem)
        then have "is_word_char (?run ! (?k - 1))" by (rule set_takeWhileD [THEN conjunct2])
        moreover have "?run ! (?k - 1) = ?s ! (?k - 1)"
          using pos by (intro takeWhile_nth) linarith
        moreover have "?k - 1 < length ?s"
          using length_takeWhile_le [of is_word_char ?s] pos by linarith
        ultimately have wl: "word_before (char_at ?s (?k - 1))"
          by (simp add: char_at_def word_before_def)
        have "findall_number prev ?s =
            take ?k ?s # findall_number (char_at ?s (?k - 1)) (drop ?k ?s)"
          using some by simp
        also have "\<dots> = ?run # number_tokens (dropWhile is_word_char (drop ?k ?s))"
          using 2(2) [OF some] wl tk by simp
        also have "\<dots> = ?run # number_tokens (dropWhile is_word_char cs)"
          unfolding dr by simp
        finally show ?thesis using nb True q by (simp add: word_runs_run)
      next
        case nq: False
        then have none: "match_number_at prev ?s = None" using m by simp
        have "findall_number prev ?s = findall_number (Some c) cs" using none by simp
        also have "\<dots> = number_tokens (dropWhile is_word_char cs)"
          using 2(1) [OF none] True by (simp add: word_before_def)
        finally show ?thesis using nb True nq by (simp add: word_runs_run)
      qed
    qed
  qed
qed

lemma findall_number_first: "findall_number None s = number_tokens s"
  by (simp add: findall_number_tokens word_before_def)


lemma evaluate_answer_quality_examples:
  "evaluate_answer_quality (Inl ex) (replicate 60 (CHR ''x'')) = 55"
  "evaluate_answer_quality (Inl ex) (replicate 10 (CHR ''x'')) = 40"
  "evaluate_answer_quality (Inr ''Score: 85/100'') answer = 85"
  "evaluate_answer_quality (Inr ''250'') answer = 100"
  "evaluate_answer_quality (Inr ''1000'') ''no'' = 45"
  by (simp_all add: evaluate_answer_quality_def strip_def is_space_def match_number_at_def
      word_boundary_def char_at_def is_word_char_def is_digit_def int_of_digits_def digit_value_def
      split_ws_def)

lemma evaluate_answer_quality_keyword:
  "evaluate_answer_quality (Inr ''n/a'') (concat (replicate 21 ''Because '')) = 65"
  by code_simp

text \<open>
  The first two tiers of \<^verbatim>\<open>evaluate_answer_quality\<close>, for a reply and an answer in
  ASCII (the texts on which the character classes of the model are Python's): the first
  integer token of one to three digits, clamped to 0..100, and without such a token 65 for
  an answer of more than 20 words that contains one of the keywords in lower case, 45
  otherwise. The third tier is the branch of the exception handler.
\<close>

lemma evaluate_answer_quality_reply:
  assumes "ascii_text response" "ascii_text answer"
  shows "evaluate_answer_quality (Inr response) answer =
     (case number_tokens (strip response) of
        n # _ \<Rightarrow> max 0 (min 100 (int_of_digits n))
      | [] \<Rightarrow>
          (if length (split_ws answer) > 20 \<and>
              list_ex (\<lambda>keyword. sublist keyword (lower answer))
                [''because'', ''example'', ''method'', ''technique'', ''approach'']
           then 65 else 45))"
  by (simp only: evaluate_answer_quality_def Let_def findall_number_first sum.case)

lemma evaluate_answer_quality_handler:
  "evaluate_answer_quality (Inl ex) answer = (if length answer > 50 then 55 else 40)"
  by (simp only: evaluate_answer_quality_def sum.case)

lemma throwing_model_scores:
  "evaluate_answer_quality (Inr continue_text) (replicate 60 (CHR ''x'')) = 45"
  "evaluate_answer_quality (Inr continue_text) (replicate 10 (CHR ''x'')) = 45"
  by code_simp+

text \<open>
  Claim C4. When every call of the external model raises, \<^verbatim>\<open>generate_text\<close> returns
  the text \<open>Please continue with your answer.\<close>, so \<^verbatim>\<open>self.llm.ask\<close> hands
  \<^verbatim>\<open>evaluate_answer_quality\<close> a text and never an exception. That text holds no
  integer token, and the answer of 60 characters and the answer of 10 characters both
  score 45, by the second tier. The exception handler would give them 55 and 40, but no
  behaviour of the model makes \<^verbatim>\<open>ask\<close> raise. With a reply that holds a number the
  first tier applies: \<open>Score: 85/100\<close> scores 85 and \<open>250\<close> scores 100.
\<close>

theorem throwing_collaborator_score:
  "llm_reply (\<lambda>n. Raises (e n)) = Inr ''Please continue with your answer.''
   \<and> number_tokens ''Please continue with your answer.'' = []
   \<and> evaluate_answer_quality (llm_reply (\<lambda>n. Raises (e n))) (replicate 60 (CHR ''x'')) = 45
   \<and> evaluate_answer_quality (llm_reply (\<lambda>n. Raises (e n))) (replicate 10 (CHR ''x'')) = 45
   \<and> (\<exists>s. llm_reply model = Inr s)
   \<and> evaluate_answer_quality (Inl ex) (replicate 60 (CHR ''x'')) = 55
   \<and> evaluate_answer_quality (Inl ex) (replicate 10 (CHR ''x'')) = 40
   \<and> evaluate_answer_quality (Inr ''Score: 85/100'') answer = 85
   \<and> evaluate_answer_quality (Inr ''250'') answer = 100"
proof -
  have reply: "llm_reply (\<lambda>n. Raises (e n)) = Inr ''Please continue with your answer.''"
    using llm_reply_all_raise [of e] by (simp add: continue_text_def)
  have tokens: "number_tokens ''Please continue with your answer.'' = []"
    by code_simp
  have low: "evaluate_answer_quality (llm_reply (\<lambda>n. Raises (e n))) (replicate 60 (CHR ''x'')) = 45"
    "evaluate_answer_quality (llm_reply (\<lambda>n. Raises (e n))) (replicate 10 (CHR ''x'')) = 45"
    unfolding llm_reply_all_raise by (rule throwing_model_scores)+
  from reply tokens low llm_reply_text [of model] evaluate_answer_quality_examples
  show ?thesis by blast
qed

end
